theory Spec2Isabelle
  imports Main
begin

section \<open>FSH types (src/fshtypes, as used by FSHTank.ts and StructureDefinitionExporter.ts)\<close>

text \<open>
  The kinds a Fishable can be asked for (\<^verbatim>\<open>Type\<close> of utils/Fishable). The class of a
  declared entity is the constructor of \<open>FshDefinition\<close> below, so \<^verbatim>\<open>Type.Profile\<close> is
  \<open>Type.Profile\<close> and \<^verbatim>\<open>x instanceof Profile\<close> is a match on \<open>Profile\<close>.
\<close>

datatype Type =
  Profile | Extension | Logical | Resource | ValueSet | CodeSystem | Instance
  | Invariant | RuleSet | Mapping | Type

datatype FshCode = FshCode (code: string) (system: "string option")

text \<open>The values a rule can carry; \<open>OtherValue\<close> stands for the value classes no code
  under study inspects (quantities, ratios, references, canonicals).\<close>

datatype FshValue =
  StringValue string
  | BooleanValue bool
  | NumberValue int
  | CodeValue FshCode
  | OtherValue string

datatype ContainsRuleItem = ContainsRuleItem (item_name: string) (item_type: "string option")

text \<open>The rule classes of fshtypes/rules. The source location of a rule is an opaque token
  that is only passed through to the logger; it is left out.\<close>

datatype Rule =
  CardRule string "int option" string
  | AssignmentRule string FshValue bool bool
  | FlagRule string "bool list"
  | OnlyRule string "string list"
  | BindingRule string string string
  | ContainsRule string "ContainsRuleItem list"
  | ObeysRule string string
  | CaretValueRule string string FshValue bool
  | AddElementRule string string

fun path :: "Rule \<Rightarrow> string" where
  "path (CardRule p _ _) = p"
| "path (AssignmentRule p _ _ _) = p"
| "path (FlagRule p _) = p"
| "path (OnlyRule p _) = p"
| "path (BindingRule p _ _) = p"
| "path (ContainsRule p _) = p"
| "path (ObeysRule p _) = p"
| "path (CaretValueRule p _ _ _) = p"
| "path (AddElementRule p _) = p"

text \<open>The entity classes. What all of them carry is in \<open>FshEntity\<close>; \<open>id'\<close> is the
  field \<^verbatim>\<open>id\<close>.\<close>

record FshEntity =
  name :: string
  id' :: string
  title :: "string option"
  description :: "string option"
  rules :: "Rule list"

record FshStructure = FshEntity +
  parent :: "string option"
  characteristics :: "string list"

record FshInstance = FshEntity +
  instanceOf :: string
  usage :: string

record FshInvariant = FshEntity +
  expression :: "string option"
  xpath :: "string option"
  severity :: "FshCode option"

datatype FshDefinition =
  Profile FshStructure
  | Extension FshStructure
  | Logical FshStructure
  | Resource FshStructure
  | FshValueSet FshEntity
  | FshCodeSystem FshEntity
  | Instance FshInstance
  | Invariant FshInvariant
  | RuleSet FshEntity
  | Mapping FshEntity

record Configuration =
  canonical :: string
  version :: "string option"
  applyExtensionMetadataToRoot :: "bool option"

text \<open>A document keeps one \<^verbatim>\<open>Map\<close> from name to entity per kind; the tank only reads
  \<^verbatim>\<open>values()\<close>, which lists the entities in insertion order, so each map is the list of
  its values. \<open>aliases\<close> is read by key.\<close>

record FSHDocument =
  doc_profiles :: "FshStructure list"
  doc_extensions :: "FshStructure list"
  doc_logicals :: "FshStructure list"
  doc_resources :: "FshStructure list"
  doc_instances :: "FshInstance list"
  doc_valueSets :: "FshEntity list"
  doc_codeSystems :: "FshEntity list"
  doc_invariants :: "FshInvariant list"
  doc_ruleSets :: "FshEntity list"
  doc_mappings :: "FshEntity list"
  aliases :: "(string \<times> string) list"

record FSHTank =
  docs :: "FSHDocument list"
  config :: Configuration

text \<open>
  Helpers of fhirtypes/common and of the value classes that FSHTank.ts calls and that are
  not part of the sources at hand. They are parameters of the model: every theorem below
  holds for any choice of them.

  A JavaScript number that \<^verbatim>\<open>parseInt\<close> yields is a double: beyond \<open>2 ^ 53\<close> it is the digits'
  value rounded. Such a number is held here as the text that \<^verbatim>\<open>String\<close> (and a template
  literal) gives for it, which is all the code does with it besides comparing it: two
  numbers that are keys of a \<^verbatim>\<open>Map\<close> are the same key exactly when they print alike, and one
  is \<^verbatim>\<open>=== 0\<close> exactly when it prints as \<^verbatim>\<open>0\<close>. \<^verbatim>\<open>parseInt\<close> on a string of decimal digits,
  with the rounding it does, is a parameter as well.
\<close>

type_synonym number = string

record Common =
  getUrlFromFshDefinition :: "FshDefinition \<Rightarrow> string \<Rightarrow> string"
  getVersionFromFshDefinition :: "FshDefinition \<Rightarrow> string option \<Rightarrow> string option"
  valueToString :: "FshValue \<Rightarrow> string"
  parseInt :: "string \<Rightarrow> number"
  LOGICAL_TARGET_EXTENSION :: string
  TYPE_CHARACTERISTICS_EXTENSION :: string

section \<open>FSHTank (src/import/FSHTank.ts)\<close>

definition getAllProfiles :: "FSHTank \<Rightarrow> FshStructure list" where
  "getAllProfiles tank = concat (map doc_profiles (docs tank))"

definition getAllExtensions :: "FSHTank \<Rightarrow> FshStructure list" where
  "getAllExtensions tank = concat (map doc_extensions (docs tank))"

definition getAllLogicals :: "FSHTank \<Rightarrow> FshStructure list" where
  "getAllLogicals tank = concat (map doc_logicals (docs tank))"

definition getAllResources :: "FSHTank \<Rightarrow> FshStructure list" where
  "getAllResources tank = concat (map doc_resources (docs tank))"

definition getAllInstances :: "FSHTank \<Rightarrow> FshInstance list" where
  "getAllInstances tank = concat (map doc_instances (docs tank))"

definition getAllStructureDefinitions :: "FSHTank \<Rightarrow> FshDefinition list" where
  "getAllStructureDefinitions tank =
     map Profile (getAllProfiles tank) @ map Extension (getAllExtensions tank)
     @ map Logical (getAllLogicals tank) @ map Resource (getAllResources tank)"

definition getAllValueSets :: "FSHTank \<Rightarrow> FshEntity list" where
  "getAllValueSets tank = concat (map doc_valueSets (docs tank))"

definition getAllCodeSystems :: "FSHTank \<Rightarrow> FshEntity list" where
  "getAllCodeSystems tank = concat (map doc_codeSystems (docs tank))"

definition getAllInvariants :: "FSHTank \<Rightarrow> FshInvariant list" where
  "getAllInvariants tank = concat (map doc_invariants (docs tank))"

definition getAllRuleSets :: "FSHTank \<Rightarrow> FshEntity list" where
  "getAllRuleSets tank = concat (map doc_ruleSets (docs tank))"

definition getAllMappings :: "FSHTank \<Rightarrow> FshEntity list" where
  "getAllMappings tank = concat (map doc_mappings (docs tank))"

text \<open>\<^verbatim>\<open>resolveAlias\<close>: the first document whose alias for the name is truthy (a non-empty
  string) decides.\<close>

fun resolveAliasDocs :: "FSHDocument list \<Rightarrow> string \<Rightarrow> string option" where
  "resolveAliasDocs [] n = None"
| "resolveAliasDocs (doc # ds) n =
     (case map_of (aliases doc) n of
        Some foundAlias \<Rightarrow> if foundAlias \<noteq> [] then Some foundAlias else resolveAliasDocs ds n
      | None \<Rightarrow> resolveAliasDocs ds n)"

definition resolveAlias :: "FSHTank \<Rightarrow> string \<Rightarrow> string option" where
  "resolveAlias tank n = resolveAliasDocs (docs tank) n"

text \<open>\<^verbatim>\<open>const [base, ...versionParts] = item.split('|'); version = versionParts.join('|') || null\<close>:
  the base is the text before the first bar, the version the text after it, and an empty
  version counts as none.\<close>

definition splitVersion :: "string \<Rightarrow> string \<times> string option" where
  "splitVersion item =
     (let base = takeWhile (\<lambda>c. c \<noteq> CHR ''|'') item;
          rest = drop 1 (dropWhile (\<lambda>c. c \<noteq> CHR ''|'') item)
      in (base, if rest = [] then None else Some rest))"

text \<open>The predicates \<^verbatim>\<open>rule instanceof AssignmentRule && rule.path === p && rule.value
  instanceof FshCode && rule.value.code === c\<close> and \<^verbatim>\<open>... && rule.value === s\<close>, which
  the source writes out in place in every branch.\<close>

fun assignsCode :: "string \<Rightarrow> string \<Rightarrow> Rule \<Rightarrow> bool" where
  "assignsCode p c (AssignmentRule rp (CodeValue v) _ _) = (rp = p \<and> code v = c)"
| "assignsCode p c _ = False"

fun assignsString :: "string \<Rightarrow> string \<Rightarrow> Rule \<Rightarrow> bool" where
  "assignsString p s (AssignmentRule rp (StringValue v) _ _) = (rp = p \<and> v = s)"
| "assignsString p s _ = False"

text \<open>One iteration of the \<^verbatim>\<open>switch (t)\<close> of \<^verbatim>\<open>fish\<close>, a branch per case in the source's
  order and with the source's conditions.\<close>

definition fishType ::
  "Common \<Rightarrow> FSHTank \<Rightarrow> string \<Rightarrow> string option \<Rightarrow> Type \<Rightarrow> FshDefinition option" where
  "fishType c tank base ver t =
    (let gu = (\<lambda>d. getUrlFromFshDefinition c d (canonical (config tank)));
         gv = (\<lambda>d. getVersionFromFshDefinition c d (version (config tank)))
     in case t of
       Type.Profile \<Rightarrow>
         (case find (\<lambda>p. (name p = base \<or> id' p = base \<or> gu (Profile p) = base)
                         \<and> (ver = None \<or> ver = gv (Profile p)))
                 (getAllProfiles tank) of
            Some p \<Rightarrow> Some (Profile p)
          | None \<Rightarrow>
              map_option Instance
                (find (\<lambda>profileInstance.
                     instanceOf profileInstance = ''StructureDefinition''
                     \<and> usage profileInstance = ''Definition''
                     \<and> (name profileInstance = base \<or> id' profileInstance = base
                          \<or> gu (Instance profileInstance) = base)
                     \<and> (ver = None \<or> ver = gv (Instance profileInstance))
                     \<and> list_ex (assignsCode ''derivation'' ''constraint'') (rules profileInstance)
                     \<and> \<not> list_ex (assignsString ''type'' ''Extension'') (rules profileInstance))
                   (getAllInstances tank)))
     | Type.Extension \<Rightarrow>
         (case find (\<lambda>e. (name e = base \<or> id' e = base \<or> gu (Extension e) = base)
                         \<and> (ver = None \<or> ver = gv (Extension e)))
                 (getAllExtensions tank) of
            Some e \<Rightarrow> Some (Extension e)
          | None \<Rightarrow>
              map_option Instance
                (find (\<lambda>extensionInstance.
                     instanceOf extensionInstance = ''StructureDefinition''
                     \<and> usage extensionInstance = ''Definition''
                     \<and> (name extensionInstance = base \<or> id' extensionInstance = base
                          \<or> gu (Instance extensionInstance) = base)
                     \<and> (ver = None \<or> ver = gv (Instance extensionInstance))
                     \<and> list_ex (assignsCode ''derivation'' ''constraint'') (rules extensionInstance)
                     \<and> list_ex (assignsString ''type'' ''Extension'') (rules extensionInstance))
                   (getAllInstances tank)))
     | Type.Logical \<Rightarrow>
         (case find (\<lambda>l. (name l = base \<or> id' l = base \<or> gu (Logical l) = base)
                         \<and> (ver = None \<or> ver = gv (Logical l)))
                 (getAllLogicals tank) of
            Some l \<Rightarrow> Some (Logical l)
          | None \<Rightarrow>
              map_option Instance
                (find (\<lambda>logicalInstance.
                     instanceOf logicalInstance = ''StructureDefinition''
                     \<and> usage logicalInstance = ''Definition''
                     \<and> (name logicalInstance = base \<or> id' logicalInstance = base
                          \<or> gu (Instance logicalInstance) = base)
                     \<and> (ver = None \<or> ver = gv (Instance logicalInstance))
                     \<and> list_ex (assignsCode ''derivation'' ''specialization'') (rules logicalInstance)
                     \<and> list_ex (assignsCode ''kind'' ''logical'') (rules logicalInstance))
                   (getAllInstances tank)))
     | Type.Resource \<Rightarrow>
         (case find (\<lambda>r. (name r = base \<or> id' r = base \<or> gu (Resource r) = base)
                         \<and> (ver = None \<or> ver = gv (Resource r)))
                 (getAllResources tank) of
            Some r \<Rightarrow> Some (Resource r)
          | None \<Rightarrow>
              map_option Instance
                (find (\<lambda>resourceInstance.
                     instanceOf resourceInstance = ''StructureDefinition''
                     \<and> usage resourceInstance = ''Definition''
                     \<and> (name resourceInstance = base \<or> id' resourceInstance = base
                          \<or> gu (Instance resourceInstance) = base)
                     \<and> (ver = None \<or> ver = gv (Instance resourceInstance))
                     \<and> list_ex (assignsCode ''derivation'' ''specialization'') (rules resourceInstance)
                     \<and> list_ex (assignsCode ''kind'' ''resource'') (rules resourceInstance))
                   (getAllInstances tank)))
     | Type.ValueSet \<Rightarrow>
         (case find (\<lambda>vs. (name vs = base \<or> id' vs = base \<or> gu (FshValueSet vs) = base)
                          \<and> (ver = None \<or> ver = gv (FshValueSet vs)))
                 (getAllValueSets tank) of
            Some vs \<Rightarrow> Some (FshValueSet vs)
          | None \<Rightarrow>
              map_option Instance
                (find (\<lambda>vsInstance.
                     instanceOf vsInstance = ''ValueSet''
                     \<and> usage vsInstance = ''Definition''
                     \<and> (name vsInstance = base \<or> id' vsInstance = base
                          \<or> gu (Instance vsInstance) = base)
                     \<and> (ver = None \<or> ver = gv (Instance vsInstance)))
                   (getAllInstances tank)))
     | Type.CodeSystem \<Rightarrow>
         (case find (\<lambda>cs. (name cs = base \<or> id' cs = base \<or> gu (FshCodeSystem cs) = base)
                          \<and> (ver = None \<or> ver = gv (FshCodeSystem cs)))
                 (getAllCodeSystems tank) of
            Some cs \<Rightarrow> Some (FshCodeSystem cs)
          | None \<Rightarrow>
              map_option Instance
                (find (\<lambda>csInstance.
                     instanceOf csInstance = ''CodeSystem''
                     \<and> usage csInstance = ''Definition''
                     \<and> (name csInstance = base \<or> id' csInstance = base
                          \<or> gu (Instance csInstance) = base)
                     \<and> (ver = None \<or> ver = gv (Instance csInstance)))
                   (getAllInstances tank)))
     | Type.Instance \<Rightarrow>
         map_option Instance
           (find (\<lambda>i. (name i = base \<or> id' i = base) \<and> (ver = None \<or> ver = gv (Instance i)))
              (getAllInstances tank))
     | Type.Invariant \<Rightarrow> map_option Invariant (find (\<lambda>i. name i = base) (getAllInvariants tank))
     | Type.RuleSet \<Rightarrow> map_option RuleSet (find (\<lambda>r. name r = base) (getAllRuleSets tank))
     | Type.Mapping \<Rightarrow> map_option Mapping (find (\<lambda>m. name m = base) (getAllMappings tank))
     | Type.Type \<Rightarrow> None)"

text \<open>\<^verbatim>\<open>for (const t of types) { ...; if (result != null) return result; }\<close>\<close>

fun fishTypes ::
  "Common \<Rightarrow> FSHTank \<Rightarrow> string \<Rightarrow> string option \<Rightarrow> Type list \<Rightarrow> FshDefinition option" where
  "fishTypes c tank base ver [] = None"
| "fishTypes c tank base ver (t # ts) =
     (case fishType c tank base ver t of
        Some result \<Rightarrow> Some result
      | None \<Rightarrow> fishTypes c tank base ver ts)"

definition fish :: "Common \<Rightarrow> FSHTank \<Rightarrow> string \<Rightarrow> Type list \<Rightarrow> FshDefinition option" where
  "fish c tank item types =
     (let item = (case resolveAlias tank item of Some a \<Rightarrow> a | None \<Rightarrow> item);
          (base, ver) = splitVersion item;
          types = (if types = [] then
                     [Type.Profile, Type.Extension, Type.Logical, Type.Resource, Type.ValueSet,
                      Type.CodeSystem, Type.Instance, Type.Invariant, Type.RuleSet, Type.Mapping]
                   else types)
      in fishTypes c tank base ver types)"

text \<open>\<^verbatim>\<open>fishForAppliedRuleSet\<close> and \<^verbatim>\<open>fishForFHIR\<close> of the tank take no part in what
  follows (the latter returns nothing by definition).\<close>

subsection \<open>Resolution metadata\<close>

record Metadata =
  m_id :: string
  m_name :: string
  m_url :: "string option"
  m_parent :: "string option"
  m_resourceType :: "string option"
  m_sdType :: "string option"
  m_canBeTarget :: "bool option"
  m_canBind :: "bool option"
  m_instanceUsage :: "string option"

definition isDigit :: "char \<Rightarrow> bool" where
  "isDigit ch = (ch \<in> set ''0123456789'')"

text \<open>The regular expression \<^verbatim>\<open>/^extension(\[(\d+)\])?\.<suffix>$/\<close> and the index it
  captures: \<^verbatim>\<open>parseInt(match[2])\<close> with brackets, 0 without.\<close>

definition matchExtensionCaretPath :: "Common \<Rightarrow> string \<Rightarrow> string \<Rightarrow> number option" where
  "matchExtensionCaretPath c suffix caretPath =
     (if caretPath = ''extension.'' @ suffix then Some ''0''
      else if take 10 caretPath = ''extension['' then
        (let rest = drop 10 caretPath;
             ds = takeWhile isDigit rest;
             after = dropWhile isDigit rest
         in if ds \<noteq> [] \<and> after = ''].'' @ suffix then Some (parseInt c ds) else None)
      else None)"

fun isExtensionUrlRule :: "Common \<Rightarrow> Rule \<Rightarrow> bool" where
  "isExtensionUrlRule c (CaretValueRule p caretPath _ _) =
     (p = [] \<and> matchExtensionCaretPath c ''url'' caretPath \<noteq> None)"
| "isExtensionUrlRule c _ = False"

text \<open>\<^verbatim>\<open>extensionUrls.set(idx, urlRule.value.toString())\<close> on a \<^verbatim>\<open>Map\<close>: an association
  list in which a later value for a key replaces the earlier one.\<close>

fun mapSet :: "'k \<Rightarrow> 'v \<Rightarrow> ('k \<times> 'v) list \<Rightarrow> ('k \<times> 'v) list" where
  "mapSet k v [] = [(k, v)]"
| "mapSet k v ((k', v') # m) = (if k' = k then (k, v) # m else (k', v') # mapSet k v m)"

fun setExtensionUrl :: "Common \<Rightarrow> (number \<times> string) list \<Rightarrow> Rule \<Rightarrow> (number \<times> string) list" where
  "setExtensionUrl c m (CaretValueRule p caretPath v _) =
     (case matchExtensionCaretPath c ''url'' caretPath of
        Some idx \<Rightarrow> mapSet idx (valueToString c v) m
      | None \<Rightarrow> m)"
| "setExtensionUrl c m _ = m"

fun hasCaretPathIn :: "string list \<Rightarrow> Rule \<Rightarrow> bool" where
  "hasCaretPathIn caretPaths (CaretValueRule p caretPath _ _) = (p = [] \<and> caretPath \<in> set caretPaths)"
| "hasCaretPathIn caretPaths _ = False"

text \<open>\<^verbatim>\<open>logical.rules.filter(...).pop()\<close>: the last matching rule, if any.\<close>

definition lastValueRule :: "string list \<Rightarrow> Rule list \<Rightarrow> Rule option" where
  "lastValueRule caretPaths rs =
     (case filter (hasCaretPathIn caretPaths) rs of [] \<Rightarrow> None | x # xs \<Rightarrow> Some (last (x # xs)))"

fun valueRuleHasCode :: "string \<Rightarrow> Rule option \<Rightarrow> bool" where
  "valueRuleHasCode cd (Some (CaretValueRule _ _ (CodeValue v) _)) = (code v = cd)"
| "valueRuleHasCode cd _ = False"

fun valueRuleIsTrue :: "Rule option \<Rightarrow> bool" where
  "valueRuleIsTrue (Some (CaretValueRule _ _ (BooleanValue b) _)) = b"
| "valueRuleIsTrue _ = False"

definition hasLogicalCharacteristic :: "Common \<Rightarrow> FshStructure \<Rightarrow> string \<Rightarrow> bool" where
  "hasLogicalCharacteristic c logical cd =
     (if cd \<in> set (characteristics logical) then True
      else
        (let extensionUrlRules = filter (isExtensionUrlRule c) (rules logical);
             extensionUrls = foldl (setExtensionUrl c) [] extensionUrlRules
         in list_ex (\<lambda>(idx, url).
              if url = TYPE_CHARACTERISTICS_EXTENSION c then
                valueRuleHasCode cd
                  (lastValueRule
                     ((''extension['' @ idx @ ''].valueCode'')
                        # (if idx = ''0'' then [''extension.valueCode''] else []))
                     (rules logical))
              else if url = LOGICAL_TARGET_EXTENSION c \<and> cd = ''can-be-target'' then
                valueRuleIsTrue
                  (lastValueRule
                     ((''extension['' @ idx @ ''].valueBoolean'')
                        # (if idx = ''0'' then [''extension.valueBoolean''] else []))
                     (rules logical))
              else False)
            extensionUrls))"

text \<open>\<^verbatim>\<open>meta.url.startsWith(HL7_URL) ? meta.url.slice(HL7_URL.length) : meta.url\<close>\<close>

definition HL7_URL :: string where
  "HL7_URL = ''http://hl7.org/fhir/StructureDefinition/''"

definition startsWith :: "string \<Rightarrow> string \<Rightarrow> bool" where
  "startsWith s pre = (take (length pre) s = pre)"

definition sdTypeOfUrl :: "string \<Rightarrow> string" where
  "sdTypeOfUrl url = (if startsWith url HL7_URL then drop (length HL7_URL) url else url)"

text \<open>The body of \<^verbatim>\<open>result.rules?.forEach(r => ...)\<close> for an Instance: a string assigned
  at path \<^verbatim>\<open>url\<close> overwrites \<^verbatim>\<open>meta.url\<close>, and the loop goes on.\<close>

fun assignUrl :: "Metadata \<Rightarrow> Rule \<Rightarrow> Metadata" where
  "assignUrl meta (AssignmentRule p (StringValue v) _ _) =
     (if p = ''url'' then meta\<lparr>m_url := Some v\<rparr> else meta)"
| "assignUrl meta _ = meta"

definition structureMetadata :: "Common \<Rightarrow> FSHTank \<Rightarrow> FshDefinition \<Rightarrow> FshStructure \<Rightarrow> Metadata \<Rightarrow> Metadata" where
  "structureMetadata c tank result s meta =
     meta\<lparr>m_url := Some (getUrlFromFshDefinition c result (canonical (config tank))),
          m_parent := parent s,
          m_resourceType := Some ''StructureDefinition''\<rparr>"

text \<open>
  \<^verbatim>\<open>fishForMetadata\<close>. The rule lists of the model are those left after insert rules have
  been expanded (there is no insert rule among the rule classes above), so the call of
  \<^verbatim>\<open>applyInsertRules\<close> on the fished entity changes nothing and is not written. The
  projection is built from the entity on every call; the tank holds no metadata.
\<close>

definition fishForMetadata :: "Common \<Rightarrow> FSHTank \<Rightarrow> string \<Rightarrow> Type list \<Rightarrow> Metadata option" where
  "fishForMetadata c tank item types =
     (case fish c tank item types of
        None \<Rightarrow> None
      | Some result \<Rightarrow>
          (let blank = (\<lambda>i n. \<lparr>m_id = i, m_name = n, m_url = None, m_parent = None,
                               m_resourceType = None, m_sdType = None, m_canBeTarget = None,
                               m_canBind = None, m_instanceUsage = None\<rparr>)
           in Some
             (case result of
                Profile p \<Rightarrow> structureMetadata c tank result p (blank (id' p) (name p))
              | Extension e \<Rightarrow> structureMetadata c tank result e (blank (id' e) (name e))
              | Resource r \<Rightarrow> structureMetadata c tank result r (blank (id' r) (name r))
              | Logical l \<Rightarrow>
                  (let meta = structureMetadata c tank result l (blank (id' l) (name l))
                   in meta\<lparr>m_sdType := map_option sdTypeOfUrl (m_url meta),
                           m_canBeTarget := Some (hasLogicalCharacteristic c l ''can-be-target''),
                           m_canBind := Some (hasLogicalCharacteristic c l ''can-bind'')\<rparr>)
              | FshValueSet vs \<Rightarrow>
                  (blank (id' vs) (name vs))
                    \<lparr>m_url := Some (getUrlFromFshDefinition c result (canonical (config tank))),
                     m_resourceType := Some ''ValueSet''\<rparr>
              | FshCodeSystem cs \<Rightarrow>
                  (blank (id' cs) (name cs))
                    \<lparr>m_url := Some (getUrlFromFshDefinition c result (canonical (config tank))),
                     m_resourceType := Some ''CodeSystem''\<rparr>
              | Instance i \<Rightarrow>
                  (foldl assignUrl (blank (id' i) (name i)) (rules i))
                    \<lparr>m_instanceUsage := Some (usage i)\<rparr>
              | Invariant i \<Rightarrow> blank (id' i) (name i)
              | RuleSet r \<Rightarrow> blank (id' r) (name r)
              | Mapping m \<Rightarrow> blank (id' m) (name m))))"

section \<open>FHIR types and the package (src/fhirtypes, src/export/Package)\<close>

text \<open>
  The classes \<^verbatim>\<open>StructureDefinition\<close>, \<^verbatim>\<open>ElementDefinition\<close> and \<^verbatim>\<open>Package\<close> are used by
  the exporter but are not among the sources at hand. The records hold the fields the
  exporter reads or writes; a field whose content the exporter never inspects is an
  opaque string, and \<open>None\<close> is an absent (deleted) property.
\<close>

record ElementDefinitionType =
  ty_code :: string
  ty_profile :: "string option list option"

record ElementDefinitionConstraint =
  con_key :: string
  con_human :: "string option"
  con_expression :: "string option"
  con_severity :: "string option"
  con_source :: string

record ElementDefinition =
  el_id :: string
  el_path :: string
  el_sliceName :: "string option"
  el_min :: "int option"
  el_max :: "string option"
  el_type :: "ElementDefinitionType list option"
  el_slicing :: "(string \<times> string) list option"
  el_constraint :: "ElementDefinitionConstraint list"
  el_fixedUri :: "string option"
  el_short :: "string option"
  el_definition :: "string option"
  el_other :: string

record FhirExtension =
  ext_url :: string
  ext_value :: string

record StructureDefinition =
  sd_id :: string
  sd_meta :: "string option"
  sd_implicitRules :: "string option"
  sd_language :: "string option"
  sd_text :: "string option"
  sd_contained :: "string option"
  sd_extension :: "FhirExtension list option"
  sd_modifierExtension :: "FhirExtension list option"
  sd_url :: string
  sd_identifier :: "string option"
  sd_version :: "string option"
  sd_name :: string
  sd_title :: "string option"
  sd_status :: "string option"
  sd_experimental :: "string option"
  sd_date :: "string option"
  sd_publisher :: "string option"
  sd_contact :: "string option"
  sd_description :: "string option"
  sd_useContext :: "string option"
  sd_jurisdiction :: "string option"
  sd_purpose :: "string option"
  sd_copyright :: "string option"
  sd_keyword :: "string option"
  sd_kind :: string
  sd_abstract :: "bool option"
  sd_context :: "(string \<times> string) list option"
  sd_contextInvariant :: "string option"
  sd_type :: string
  sd_baseDefinition :: "string option"
  sd_derivation :: "string option"
  sd_elements :: "ElementDefinition list"
  sd_inProgress :: bool
  sd_other :: string

text \<open>The errors the exporter throws or catches (src/errors). Their message texts are in
  files not at hand, so a logged \<^verbatim>\<open>e.message\<close> is the error itself. \<open>TypeError\<close> is the
  run-time error of reading a property of \<^verbatim>\<open>undefined\<close>; \<open>OtherError\<close> is whatever a
  collaborator throws.\<close>

datatype Error =
  ParentNotProvidedError string
  | ParentDeclaredAsNameError string string "string option"
  | ParentDeclaredAsIdError string string string "string option"
  | ParentNotDefinedError string "string option"
  | InvalidProfileParentError string "string option"
  | InvalidExtensionParentError string "string option"
  | InvalidLogicalParentError string "string option"
  | InvalidFHIRIdError string
  | DuplicateSliceError string string string
  | TypeError string
  | OtherError string

datatype Level = ERROR | WARN | INFO

datatype Message = Text string | ErrorMessage Error

type_synonym LogEntry = "Level \<times> Message"

text \<open>
  The package holds the artifacts by reference: the exporter pushes a structure definition
  and goes on changing it, and the duplicate-id check compares references. \<open>heap\<close> is the
  store of the pushed objects, a reference is an index into it.
\<close>

type_synonym ref = nat

record Package =
  profiles :: "ref list"
  extensions :: "ref list"
  logicals :: "ref list"

record ExportState =
  tank :: FSHTank
  pkg :: Package
  heap :: "StructureDefinition list"
  deferredRules :: "(ref \<times> Rule list) list"
  logged :: "LogEntry list"

definition deref :: "ExportState \<Rightarrow> ref \<Rightarrow> StructureDefinition option" where
  "deref st r = (if r < length (heap st) then Some (heap st ! r) else None)"

definition artifacts :: "ExportState \<Rightarrow> ref list \<Rightarrow> StructureDefinition list" where
  "artifacts st rs = List.map_filter (deref st) rs"

definition logger_error :: "Message \<Rightarrow> ExportState \<Rightarrow> ExportState" where
  "logger_error m st = st\<lparr>logged := logged st @ [(ERROR, m)]\<rparr>"

definition logger_warn :: "Message \<Rightarrow> ExportState \<Rightarrow> ExportState" where
  "logger_warn m st = st\<lparr>logged := logged st @ [(WARN, m)]\<rparr>"

definition logger_info :: "Message \<Rightarrow> ExportState \<Rightarrow> ExportState" where
  "logger_info m st = st\<lparr>logged := logged st @ [(INFO, m)]\<rparr>"

text \<open>
  The methods of \<^verbatim>\<open>ElementDefinition\<close> and \<^verbatim>\<open>StructureDefinition\<close>, the helpers of
  fhirtypes/common and utils, and the instance exporter, which the exporter calls and whose
  code is not at hand and which no claim is about, are parameters. An operation on an
  element takes the element list and the element's index and returns the new list and the
  error it threw, if any. These operations rewrite elements only; fishing done inside them
  is not modelled.
\<close>

type_synonym ElementOp =
  "ElementDefinition list \<Rightarrow> nat \<Rightarrow> ElementDefinition list \<times> Error option"

record Collaborators =
  common :: Common
  fhirDefs :: "StructureDefinition list"
  idRegex_test :: "string \<Rightarrow> bool"
  findElementByPath :: "ElementDefinition list \<Rightarrow> string \<Rightarrow> ElementDefinition list \<times> nat option"
  addElement :: "Rule \<Rightarrow> ElementDefinition list \<Rightarrow> ElementDefinition list \<times> Error option"
  constrainCardinality :: "int option \<Rightarrow> string \<Rightarrow> ElementOp"
  assignValue :: "FshValue \<Rightarrow> bool \<Rightarrow> ElementOp"
  applyFlags :: "bool list \<Rightarrow> ElementOp"
  getReferenceName :: "string \<Rightarrow> ElementDefinition list \<Rightarrow> nat \<Rightarrow> string option"
  constrainType :: "Rule \<Rightarrow> string option \<Rightarrow> ElementOp"
  bindToVS :: "string \<Rightarrow> string \<Rightarrow> ElementOp"
  element_setInstancePropertyByPath :: "string \<Rightarrow> FshValue \<Rightarrow> ElementOp"
  sd_setInstancePropertyByPath ::
    "string \<Rightarrow> FshValue \<Rightarrow> StructureDefinition \<Rightarrow> StructureDefinition \<times> Error option"
  replaceReferences :: "FshValue \<Rightarrow> FSHTank \<Rightarrow> Error + FshValue"
  instanceExporter_fishForFHIR :: "FSHTank \<Rightarrow> FshValue \<Rightarrow> FshValue option"
  resolveSoftIndexing :: "Rule list \<Rightarrow> Rule list"
  cleanResource :: "StructureDefinition \<Rightarrow> StructureDefinition"
  resetRootIdAndPath :: "string \<Rightarrow> ElementDefinition list \<Rightarrow> ElementDefinition list"

subsection \<open>Collaborators modelled from the specification\<close>

text \<open>
  Modelled from the spec: \<^verbatim>\<open>splitOnPathPeriods\<close> of fhirtypes/common is missing. Section 4.1:
  a path is made of dot-separated segments, each optionally annotated with a bracketed slice
  name or index; so a period splits the path unless it stands inside brackets. The empty
  path has one, empty, segment.
\<close>

fun splitParts :: "bool \<Rightarrow> string \<Rightarrow> string \<Rightarrow> string list" where
  "splitParts inBracket cur [] = [cur]"
| "splitParts inBracket cur (ch # cs) =
     (if ch = CHR ''.'' \<and> \<not> inBracket then cur # splitParts False [] cs
      else splitParts (if ch = CHR ''['' then True else if ch = CHR '']'' then False else inBracket)
             (cur @ [ch]) cs)"

definition splitOnPathPeriods :: "string \<Rightarrow> string list" where
  "splitOnPathPeriods p = splitParts False [] p"

text \<open>
  Modelled from the spec: \<^verbatim>\<open>MasterFisher\<close> (utils) and \<^verbatim>\<open>Package.fishForFHIR\<close> are missing.
  Section 4.2: an identifier is a name, an id or a canonical URL, optionally followed by a
  bar and a version; a query that the declared entities do not answer is delegated to the
  already-published artifact collection and to the external library. A structure definition
  found in the package is handed out as a copy of its current content (its \<^verbatim>\<open>inProgress\<close>
  flag included), which is how an unfinished parent can be detected. With kinds given, only
  the partitions of those kinds are searched.
\<close>

definition matchesArtifact :: "string \<Rightarrow> string option \<Rightarrow> StructureDefinition \<Rightarrow> bool" where
  "matchesArtifact base ver sd =
     ((sd_name sd = base \<or> sd_id sd = base \<or> sd_url sd = base)
      \<and> (ver = None \<or> ver = sd_version sd))"

definition published :: "ExportState \<Rightarrow> Type list \<Rightarrow> StructureDefinition list" where
  "published st types =
     (if types = [] \<or> Type.Profile \<in> set types then artifacts st (profiles (pkg st)) else [])
     @ (if types = [] \<or> Type.Extension \<in> set types then artifacts st (extensions (pkg st)) else [])
     @ (if types = [] \<or> Type.Logical \<in> set types then artifacts st (logicals (pkg st)) else [])"

definition MasterFisher_fishForFHIR ::
  "Collaborators \<Rightarrow> ExportState \<Rightarrow> string option \<Rightarrow> Type list \<Rightarrow> StructureDefinition option" where
  "MasterFisher_fishForFHIR env st item types =
     (case item of
        None \<Rightarrow> None
      | Some it \<Rightarrow>
          (let it = (case resolveAlias (tank st) it of Some a \<Rightarrow> a | None \<Rightarrow> it);
               (base, ver) = splitVersion it
           in case find (matchesArtifact base ver) (published st types) of
                Some sd \<Rightarrow> Some sd
              | None \<Rightarrow> find (matchesArtifact base ver) (fhirDefs env)))"

definition artifactMetadata :: "StructureDefinition \<Rightarrow> Metadata" where
  "artifactMetadata sd =
     \<lparr>m_id = sd_id sd, m_name = sd_name sd, m_url = Some (sd_url sd),
      m_parent = sd_baseDefinition sd, m_resourceType = Some ''StructureDefinition'',
      m_sdType = Some (sd_type sd), m_canBeTarget = None, m_canBind = None,
      m_instanceUsage = None\<rparr>"

definition MasterFisher_fishForMetadata ::
  "Collaborators \<Rightarrow> ExportState \<Rightarrow> string \<Rightarrow> Type list \<Rightarrow> Metadata option" where
  "MasterFisher_fishForMetadata env st item types =
     (case fishForMetadata (common env) (tank st) item types of
        Some meta \<Rightarrow> Some meta
      | None \<Rightarrow> map_option artifactMetadata (MasterFisher_fishForFHIR env st (Some item) types))"

text \<open>
  Modelled from the spec: \<^verbatim>\<open>StructureDefinition.setId\<close>, \<^verbatim>\<open>setName\<close> and \<^verbatim>\<open>findElement\<close> are
  missing. Section 4.3, MetadataReset: id and name are set from the entity's declared id and
  name. An element is found by its id.
\<close>

definition setId :: "string \<Rightarrow> StructureDefinition \<Rightarrow> StructureDefinition" where
  "setId i sd = sd\<lparr>sd_id := i\<rparr>"

definition setName :: "string \<Rightarrow> StructureDefinition \<Rightarrow> StructureDefinition" where
  "setName n sd = sd\<lparr>sd_name := n\<rparr>"

fun findIndex :: "('a \<Rightarrow> bool) \<Rightarrow> 'a list \<Rightarrow> nat option" where
  "findIndex P [] = None"
| "findIndex P (x # xs) = (if P x then Some 0 else map_option Suc (findIndex P xs))"

definition findElement :: "ElementDefinition list \<Rightarrow> string \<Rightarrow> nat option" where
  "findElement els i = findIndex (\<lambda>e. el_id e = i) els"

text \<open>
  Modelled from the spec: \<^verbatim>\<open>ElementDefinition.sliceIt\<close>, \<^verbatim>\<open>getSlices\<close> and \<^verbatim>\<open>addSlice\<close> are
  missing. Sections 3 and 4.1: a slice shares the path of the element it slices and has a
  slice name that tells it apart; creating a slice fails with DuplicateSliceError when the
  element already has a slice of that name, and otherwise inserts the new element right
  after the last element with the same path. The new slice is the sliced element under its
  new identity, without the slicing; \<open>addSlice\<close> returns the new list and the index of the
  new slice in it. Section 4.4: slicing of an extension element is
  discriminated by value on \<^verbatim>\<open>url\<close>.
\<close>

definition sliceIt :: "string \<Rightarrow> string \<Rightarrow> ElementDefinition \<Rightarrow> ElementDefinition" where
  "sliceIt discriminatorType discriminatorPath e =
     e\<lparr>el_slicing := Some [(discriminatorType, discriminatorPath)]\<rparr>"

definition isSliceOf :: "ElementDefinition \<Rightarrow> ElementDefinition \<Rightarrow> bool" where
  "isSliceOf e x =
     (case el_sliceName x of
        None \<Rightarrow> False
      | Some n \<Rightarrow> el_path x = el_path e \<and> el_id x = el_id e @ '':'' @ n)"

definition getSlices :: "ElementDefinition list \<Rightarrow> ElementDefinition \<Rightarrow> ElementDefinition list" where
  "getSlices els e = filter (isSliceOf e) els"

fun lastIndexOf :: "('a \<Rightarrow> bool) \<Rightarrow> 'a list \<Rightarrow> nat option" where
  "lastIndexOf P [] = None"
| "lastIndexOf P (x # xs) =
     (case lastIndexOf P xs of
        Some i \<Rightarrow> Some (Suc i)
      | None \<Rightarrow> if P x then Some 0 else None)"

definition addSlice ::
  "string \<Rightarrow> string \<Rightarrow> ElementDefinition list \<Rightarrow> ElementDefinition
     \<Rightarrow> Error + (ElementDefinition list \<times> nat)" where
  "addSlice sdName sliceName els e =
     (if list_ex (\<lambda>x. el_sliceName x = Some sliceName) (getSlices els e)
      then Inl (DuplicateSliceError sdName (el_id e) sliceName)
      else
        (let slice = e\<lparr>el_id := el_id e @ '':'' @ sliceName,
                       el_sliceName := Some sliceName,
                       el_slicing := None\<rparr>;
             pos = (case lastIndexOf (\<lambda>x. el_path x = el_path e) els of
                      Some i \<Rightarrow> Suc i
                    | None \<Rightarrow> length els)
         in Inr (take pos els @ [slice] @ drop pos els, pos)))"

text \<open>
  Modelled from the spec: \<^verbatim>\<open>ElementDefinition.applyConstraint\<close> is missing. Section 4.4,
  InvariantAttachment: the invariant's constraint (key, human description, expression,
  severity) is attached to the element, tagged with the given source.
\<close>

definition applyConstraint :: "FshInvariant \<Rightarrow> string \<Rightarrow> ElementDefinition \<Rightarrow> ElementDefinition" where
  "applyConstraint invariant source e =
     e\<lparr>el_constraint := el_constraint e @
         [\<lparr>con_key = name invariant, con_human = description invariant,
           con_expression = expression invariant,
           con_severity = map_option code (severity invariant),
           con_source = source\<rparr>]\<rparr>"

section \<open>StructureDefinitionExporter (src/export/StructureDefinitionExporter.ts)\<close>

subsection \<open>Reading and updating the entity being exported\<close>

text \<open>
  \<^verbatim>\<open>exportStructDef\<close> is typed for Profile, Extension and Logical, but it is also handed
  whatever the tank fishes up and whatever \<^verbatim>\<open>getAllStructureDefinitions\<close> lists, so the
  model takes any entity and reads its fields as the source does; a field the class does not
  have is \<^verbatim>\<open>undefined\<close>.
\<close>

fun entity :: "FshDefinition \<Rightarrow> FshEntity" where
  "entity (Profile s) = FshEntity.truncate s"
| "entity (Extension s) = FshEntity.truncate s"
| "entity (Logical s) = FshEntity.truncate s"
| "entity (Resource s) = FshEntity.truncate s"
| "entity (FshValueSet e) = e"
| "entity (FshCodeSystem e) = e"
| "entity (Instance i) = FshEntity.truncate i"
| "entity (Invariant i) = FshEntity.truncate i"
| "entity (RuleSet e) = e"
| "entity (Mapping e) = e"

fun defParent :: "FshDefinition \<Rightarrow> string option" where
  "defParent (Profile s) = parent s"
| "defParent (Extension s) = parent s"
| "defParent (Logical s) = parent s"
| "defParent (Resource s) = parent s"
| "defParent _ = None"

fun setRulesOf :: "Rule list \<Rightarrow> FshDefinition \<Rightarrow> FshDefinition" where
  "setRulesOf rs (Profile s) = Profile (s\<lparr>rules := rs\<rparr>)"
| "setRulesOf rs (Extension s) = Extension (s\<lparr>rules := rs\<rparr>)"
| "setRulesOf rs (Logical s) = Logical (s\<lparr>rules := rs\<rparr>)"
| "setRulesOf rs (Resource s) = Resource (s\<lparr>rules := rs\<rparr>)"
| "setRulesOf rs (FshValueSet e) = FshValueSet (e\<lparr>rules := rs\<rparr>)"
| "setRulesOf rs (FshCodeSystem e) = FshCodeSystem (e\<lparr>rules := rs\<rparr>)"
| "setRulesOf rs (Instance i) = Instance (i\<lparr>rules := rs\<rparr>)"
| "setRulesOf rs (Invariant i) = Invariant (i\<lparr>rules := rs\<rparr>)"
| "setRulesOf rs (RuleSet e) = RuleSet (e\<lparr>rules := rs\<rparr>)"
| "setRulesOf rs (Mapping e) = Mapping (e\<lparr>rules := rs\<rparr>)"

fun constructorName :: "FshDefinition \<Rightarrow> string" where
  "constructorName (Profile _) = ''Profile''"
| "constructorName (Extension _) = ''Extension''"
| "constructorName (Logical _) = ''Logical''"
| "constructorName (Resource _) = ''Resource''"
| "constructorName (FshValueSet _) = ''FshValueSet''"
| "constructorName (FshCodeSystem _) = ''FshCodeSystem''"
| "constructorName (Instance _) = ''Instance''"
| "constructorName (Invariant _) = ''Invariant''"
| "constructorName (RuleSet _) = ''RuleSet''"
| "constructorName (Mapping _) = ''Mapping''"

fun isProfile :: "FshDefinition \<Rightarrow> bool" where
  "isProfile (Profile _) = True"
| "isProfile _ = False"

fun isExtension :: "FshDefinition \<Rightarrow> bool" where
  "isExtension (Extension _) = True"
| "isExtension _ = False"

fun isLogical :: "FshDefinition \<Rightarrow> bool" where
  "isLogical (Logical _) = True"
| "isLogical _ = False"

text \<open>
  The source changes the entity object in place (its parent, its rules), and the tank holds
  that same object. The model passes the entity by value, so each change is written back to
  the tank: the first entity of the tank equal to the old value is replaced. Positions in the
  tank's lists do not change.
\<close>

fun replaceFirst :: "'a \<Rightarrow> 'a \<Rightarrow> 'a list \<Rightarrow> 'a list" where
  "replaceFirst old new [] = []"
| "replaceFirst old new (x # xs) = (if x = old then new # xs else x # replaceFirst old new xs)"

fun replaceInDocs ::
  "(FSHDocument \<Rightarrow> 'a list) \<Rightarrow> ('a list \<Rightarrow> FSHDocument \<Rightarrow> FSHDocument) \<Rightarrow> 'a \<Rightarrow> 'a
     \<Rightarrow> FSHDocument list \<Rightarrow> FSHDocument list" where
  "replaceInDocs get put old new [] = []"
| "replaceInDocs get put old new (doc # ds) =
     (if old \<in> set (get doc) then put (replaceFirst old new (get doc)) doc # ds
      else doc # replaceInDocs get put old new ds)"

fun replaceDefinition :: "FshDefinition \<Rightarrow> FshDefinition \<Rightarrow> FSHTank \<Rightarrow> FSHTank" where
  "replaceDefinition (Profile old) (Profile new) t =
     t\<lparr>docs := replaceInDocs doc_profiles (\<lambda>xs doc. doc\<lparr>doc_profiles := xs\<rparr>) old new (docs t)\<rparr>"
| "replaceDefinition (Extension old) (Extension new) t =
     t\<lparr>docs := replaceInDocs doc_extensions (\<lambda>xs doc. doc\<lparr>doc_extensions := xs\<rparr>) old new (docs t)\<rparr>"
| "replaceDefinition (Logical old) (Logical new) t =
     t\<lparr>docs := replaceInDocs doc_logicals (\<lambda>xs doc. doc\<lparr>doc_logicals := xs\<rparr>) old new (docs t)\<rparr>"
| "replaceDefinition (Resource old) (Resource new) t =
     t\<lparr>docs := replaceInDocs doc_resources (\<lambda>xs doc. doc\<lparr>doc_resources := xs\<rparr>) old new (docs t)\<rparr>"
| "replaceDefinition (Instance old) (Instance new) t =
     t\<lparr>docs := replaceInDocs doc_instances (\<lambda>xs doc. doc\<lparr>doc_instances := xs\<rparr>) old new (docs t)\<rparr>"
| "replaceDefinition _ _ t = t"

definition isEmpty :: "string option \<Rightarrow> bool" where
  "isEmpty s = (s = None \<or> s = Some [])"

definition truthy :: "string option \<Rightarrow> bool" where
  "truthy s = (\<not> isEmpty s)"

definition showOpt :: "string option \<Rightarrow> string" where
  "showOpt s = (case s of None \<Rightarrow> ''undefined'' | Some x \<Rightarrow> x)"

subsection \<open>The structure definition under construction, in the store\<close>

definition theSd :: "ExportState \<Rightarrow> ref \<Rightarrow> StructureDefinition" where
  "theSd st r = heap st ! r"

definition updSd :: "ref \<Rightarrow> (StructureDefinition \<Rightarrow> StructureDefinition) \<Rightarrow> ExportState \<Rightarrow> ExportState" where
  "updSd r f st = st\<lparr>heap := (heap st)[r := f (heap st ! r)]\<rparr>"

definition elementsOf :: "ExportState \<Rightarrow> ref \<Rightarrow> ElementDefinition list" where
  "elementsOf st r = sd_elements (theSd st r)"

definition setElements :: "ref \<Rightarrow> ElementDefinition list \<Rightarrow> ExportState \<Rightarrow> ExportState" where
  "setElements r els st = updSd r (\<lambda>sd. sd\<lparr>sd_elements := els\<rparr>) st"

definition updElement :: "ref \<Rightarrow> nat \<Rightarrow> (ElementDefinition \<Rightarrow> ElementDefinition) \<Rightarrow> ExportState \<Rightarrow> ExportState" where
  "updElement r e f st = setElements r ((elementsOf st r)[e := f (elementsOf st r ! e)]) st"

text \<open>\<^verbatim>\<open>try { op } catch (e) { logger.error(e.message, ...) }\<close> around one operation of a
  collaborator on the element \<open>e\<close>: what the operation did before it threw stays done.\<close>

definition logThrown :: "Error option \<Rightarrow> ExportState \<Rightarrow> ExportState" where
  "logThrown err st = (case err of None \<Rightarrow> st | Some e \<Rightarrow> logger_error (ErrorMessage e) st)"

definition tryElementOp :: "ref \<Rightarrow> nat \<Rightarrow> ElementOp \<Rightarrow> ExportState \<Rightarrow> ExportState" where
  "tryElementOp r e op st =
     (let (els, err) = op (elementsOf st r) e in logThrown err (setElements r els st))"

subsection \<open>setMetadata\<close>

definition UNINHERITED_EXTENSIONS :: "string list" where
  "UNINHERITED_EXTENSIONS =
     [''http://hl7.org/fhir/StructureDefinition/structuredefinition-standards-status'',
      ''http://hl7.org/fhir/StructureDefinition/structuredefinition-normative-version'',
      ''http://hl7.org/fhir/StructureDefinition/structuredefinition-explicit-type-name'',
      ''http://hl7.org/fhir/StructureDefinition/structuredefinition-fmm'',
      ''http://hl7.org/fhir/StructureDefinition/structuredefinition-wg'',
      ''http://hl7.org/fhir/StructureDefinition/structuredefinition-summary'']"

text \<open>\<^verbatim>\<open>x = x?.filter(e => !UNINHERITED_EXTENSIONS.includes(e.url)); if (!x?.length) delete x\<close>\<close>

definition stripUninherited :: "FhirExtension list option \<Rightarrow> FhirExtension list option" where
  "stripUninherited exts =
     (case exts of
        None \<Rightarrow> None
      | Some xs \<Rightarrow>
          (let kept = filter (\<lambda>e. ext_url e \<notin> set UNINHERITED_EXTENSIONS) xs
           in if kept = [] then None else Some kept))"

text \<open>\<^verbatim>\<open>structDef.elements[0].f = v\<close>: a TypeError when there is no first element.\<close>

definition setOnRoot ::
  "(ElementDefinition \<Rightarrow> ElementDefinition) \<Rightarrow> StructureDefinition \<Rightarrow> Error + StructureDefinition" where
  "setOnRoot f sd =
     (case sd_elements sd of
        [] \<Rightarrow> Inl (TypeError ''Cannot set properties of undefined'')
      | e # es \<Rightarrow> Inr (sd\<lparr>sd_elements := f e # es\<rparr>))"

definition setMetadata ::
  "Collaborators \<Rightarrow> FSHTank \<Rightarrow> StructureDefinition \<Rightarrow> FshDefinition \<Rightarrow> Error + StructureDefinition" where
  "setMetadata env tnk structDef fshDefinition =
     (let baseURL = sd_url structDef;
          toRoot = (isExtension fshDefinition
                    \<and> \<not> (applyExtensionMetadataToRoot (config tnk) = Some False));
          sd = setId (id' (entity fshDefinition)) structDef;
          sd = sd\<lparr>sd_meta := None, sd_implicitRules := None, sd_language := None,
                  sd_text := None, sd_contained := None\<rparr>;
          sd = sd\<lparr>sd_extension := stripUninherited (sd_extension sd)\<rparr>;
          sd = sd\<lparr>sd_modifierExtension := stripUninherited (sd_modifierExtension sd)\<rparr>;
          sd = sd\<lparr>sd_url := getUrlFromFshDefinition (common env) fshDefinition (canonical (config tnk))\<rparr>;
          sd = sd\<lparr>sd_identifier := None, sd_version := version (config tnk)\<rparr>;
          sd = setName (name (entity fshDefinition)) sd
      in case (if truthy (title (entity fshDefinition)) then
                 (let sd = sd\<lparr>sd_title := title (entity fshDefinition)\<rparr>
                  in if toRoot then setOnRoot (\<lambda>e. e\<lparr>el_short := title (entity fshDefinition)\<rparr>) sd
                     else Inr sd)
               else Inr (sd\<lparr>sd_title := None\<rparr>)) of
           Inl err \<Rightarrow> Inl err
         | Inr sd \<Rightarrow>
      (let sd = sd\<lparr>sd_status := Some ''active'', sd_experimental := None, sd_date := None,
                   sd_publisher := None, sd_contact := None\<rparr>
       in case (if truthy (description (entity fshDefinition)) then
                  (let sd = sd\<lparr>sd_description := description (entity fshDefinition)\<rparr>
                   in if toRoot then
                        setOnRoot (\<lambda>e. e\<lparr>el_definition := description (entity fshDefinition)\<rparr>) sd
                      else Inr sd)
                else Inr (sd\<lparr>sd_description := None\<rparr>)) of
            Inl err \<Rightarrow> Inl err
          | Inr sd \<Rightarrow>
      (let sd = sd\<lparr>sd_useContext := None, sd_jurisdiction := None, sd_purpose := None,
                   sd_copyright := None, sd_keyword := None\<rparr>;
           sd = (if isLogical fshDefinition then sd\<lparr>sd_kind := ''logical''\<rparr> else sd);
           sd = sd\<lparr>sd_abstract := Some False\<rparr>;
           sd = (if \<not> isExtension fshDefinition
                 then sd\<lparr>sd_context := None, sd_contextInvariant := None\<rparr> else sd);
           sd = (if isLogical fshDefinition then sd\<lparr>sd_type := id' (entity fshDefinition)\<rparr> else sd);
           sd = sd\<lparr>sd_baseDefinition := Some baseURL\<rparr>;
           sd = (if isLogical fshDefinition then sd\<lparr>sd_derivation := Some ''specialization''\<rparr>
                 else sd\<lparr>sd_derivation := Some ''constraint''\<rparr>)
       in if isExtension fshDefinition then
            (case findElement (sd_elements sd) ''Extension.url'' of
               None \<Rightarrow> Inl (TypeError ''Cannot set properties of undefined'')
             | Some u \<Rightarrow>
                 (let sd = sd\<lparr>sd_elements :=
                              (sd_elements sd)[u := (sd_elements sd ! u)\<lparr>el_fixedUri := Some (sd_url sd)\<rparr>]\<rparr>
                  in Inr (if sd_context sd = None
                          then sd\<lparr>sd_context := Some [(''element'', ''Element'')]\<rparr>
                          else sd)))
          else Inr sd)))"

subsection \<open>preprocessStructureDefinition\<close>

fun isZeroCardRule :: "Rule \<Rightarrow> bool" where
  "isZeroCardRule (CardRule _ _ mx) = (mx = ''0'')"
| "isZeroCardRule _ = False"

definition joinParts :: "string list \<Rightarrow> string" where
  "joinParts ps = (case ps of [] \<Rightarrow> [] | x # xs \<Rightarrow> foldl (\<lambda>acc q. acc @ ''.'' @ q) x xs)"

text \<open>\<^verbatim>\<open>inferredCardRulesMap\<close> is a \<^verbatim>\<open>Map\<close> from a path to a flag; it is listed in the order in
  which the keys were first set. An entry counts as present when its flag is true.\<close>

type_synonym InferredCardRulesMap = "(string \<times> bool) list"

definition mapGet :: "InferredCardRulesMap \<Rightarrow> string \<Rightarrow> bool" where
  "mapGet m k = (map_of m k = Some True)"

definition bothError :: "string \<Rightarrow> LogEntry" where
  "bothError nm = (ERROR, Text (''Extension on '' @ nm @ '' cannot have both a value and sub-extensions''))"

text \<open>The shared shape of the two branches of the inner callback: \<open>contra\<close> is
  \<^verbatim>\<open>relevantContradictoryRule\<close>, \<open>relevant\<close> is \<^verbatim>\<open>relevantRule\<close>.\<close>

definition inferBranch ::
  "string \<Rightarrow> Rule \<Rightarrow> string \<Rightarrow> string \<Rightarrow> InferredCardRulesMap \<times> LogEntry list
     \<Rightarrow> InferredCardRulesMap \<times> LogEntry list" where
  "inferBranch nm rule contra relevant acc =
     (let (m, lg) = acc
      in if \<not> isZeroCardRule rule then
           (if mapGet m contra then (mapSet contra False m, lg @ [bothError nm])
            else (mapSet relevant True m, lg))
         else
           (if mapGet m contra then (mapSet contra False m, lg) else (m, lg)))"

definition inferPathPart ::
  "string \<Rightarrow> bool \<Rightarrow> Rule \<Rightarrow> string list \<Rightarrow> InferredCardRulesMap \<times> LogEntry list \<Rightarrow> nat
     \<Rightarrow> InferredCardRulesMap \<times> LogEntry list" where
  "inferPathPart nm isExt rule rulePathParts acc i =
     (let pathPart = rulePathParts ! i;
          isOnExtension = ((isExt \<and> length rulePathParts = 1)
                           \<or> (0 < i \<and> startsWith (rulePathParts ! (i - 1)) ''extension''))
      in if \<not> isOnExtension then acc
         else
           (let initialPath = joinParts (take i rulePathParts);
                basePath = initialPath @ (if initialPath \<noteq> [] then ''.'' else [])
            in if startsWith pathPart ''extension'' then
                 inferBranch nm rule (basePath @ ''extension'') (basePath @ ''value[x]'') acc
               else if startsWith pathPart ''value'' then
                 inferBranch nm rule (basePath @ ''value[x]'') (basePath @ ''extension'') acc
               else acc))"

definition inferRule ::
  "string \<Rightarrow> bool \<Rightarrow> InferredCardRulesMap \<times> LogEntry list \<Rightarrow> Rule
     \<Rightarrow> InferredCardRulesMap \<times> LogEntry list" where
  "inferRule nm isExt acc rule =
     (let rulePathParts = splitOnPathPeriods (path rule)
      in foldl (inferPathPart nm isExt rule rulePathParts) acc [0..<length rulePathParts])"

definition inferredCardRules :: "InferredCardRulesMap \<Rightarrow> Rule list" where
  "inferredCardRules m = map (\<lambda>(rule, shouldRuleBeSet). CardRule rule (Some 0) ''0'') (filter snd m)"

text \<open>The rules after preprocessing and the messages logged by it.\<close>

definition preprocessRules :: "string \<Rightarrow> bool \<Rightarrow> Rule list \<Rightarrow> Rule list \<times> LogEntry list" where
  "preprocessRules nm isExt rs =
     (let (m, lg) = foldl (inferRule nm isExt) ([], []) rs
      in (rs @ inferredCardRules m, lg))"

definition preprocessStructureDefinition ::
  "FshDefinition \<Rightarrow> bool \<Rightarrow> ExportState \<Rightarrow> FshDefinition \<times> ExportState" where
  "preprocessStructureDefinition fshDefinition isExt st =
     (let (rs, lg) = preprocessRules (name (entity fshDefinition)) isExt (rules (entity fshDefinition));
          d = setRulesOf rs fshDefinition
      in (d, st\<lparr>logged := logged st @ lg, tank := replaceDefinition fshDefinition d (tank st)\<rparr>))"

subsection \<open>handleExtensionContainsRule\<close>

text \<open>An index handed back by \<^verbatim>\<open>findElementByPath\<close> names an element only when it is within
  the list.\<close>

definition validIndex :: "'a list \<Rightarrow> nat option \<Rightarrow> nat option" where
  "validIndex xs found = (case found of None \<Rightarrow> None | Some i \<Rightarrow> if i < length xs then Some i else None)"

text \<open>
  The branch \<^verbatim>\<open>if (item.type)\<close> of the callback of \<^verbatim>\<open>rule.items.forEach\<close>. The second
  component of the result is an error that leaves the callback uncaught: the lookup
  \<^verbatim>\<open>slice?.type[0]\<close> inside the \<^verbatim>\<open>catch\<close> block throws when the slice has no type.
\<close>

definition standaloneExtensionItem ::
  "Collaborators \<Rightarrow> ref \<Rightarrow> nat \<Rightarrow> ContainsRuleItem \<Rightarrow> string \<Rightarrow> ExportState
     \<Rightarrow> ExportState \<times> Error option" where
  "standaloneExtensionItem env r e item ty st =
     (case MasterFisher_fishForMetadata env st ty [Type.Extension] of
        None \<Rightarrow>
          (logger_error (Text (''Cannot create '' @ item_name item
             @ '' extension; unable to locate extension definition for: '' @ ty @ ''.'')) st, None)
      | Some extension \<Rightarrow>
          (case addSlice (sd_name (theSd st r)) (item_name item) (elementsOf st r) (elementsOf st r ! e) of
             Inr (els, pos) \<Rightarrow>
               (let st = setElements r els st
                in case el_type (els ! pos) of
                     Some (t # ts) \<Rightarrow>
                       (updElement r pos
                          (\<lambda>slice. slice\<lparr>el_type := Some
                             (t\<lparr>ty_profile := Some ((case ty_profile t of None \<Rightarrow> [] | Some ps \<Rightarrow> ps)
                                                      @ [m_url extension])\<rparr> # ts)\<rparr>) st, None)
                   | _ \<Rightarrow>
                       (logger_error (ErrorMessage (TypeError ''Cannot read properties of undefined'')) st,
                        None))
           | Inl err \<Rightarrow>
               (case err of
                  DuplicateSliceError _ _ _ \<Rightarrow>
                    (case find (\<lambda>el. el_sliceName el = Some (item_name item))
                            (getSlices (elementsOf st r) (elementsOf st r ! e)) of
                       None \<Rightarrow> (logger_error (ErrorMessage err) st, None)
                     | Some slice \<Rightarrow>
                         (case el_type slice of
                            None \<Rightarrow> (st, Some (TypeError ''Cannot read properties of undefined''))
                          | Some [] \<Rightarrow> (logger_error (ErrorMessage err) st, None)
                          | Some (t # ts) \<Rightarrow>
                              (case ty_profile t of
                                 None \<Rightarrow> (logger_error (ErrorMessage err) st, None)
                               | Some ps \<Rightarrow>
                                   if list_ex (\<lambda>p. p = m_url extension) ps
                                   then (logger_warn (ErrorMessage err) st, None)
                                   else (logger_error (ErrorMessage err) st, None))))
                | _ \<Rightarrow> (logger_error (ErrorMessage err) st, None))))"

text \<open>The \<^verbatim>\<open>else\<close> branch: an inline extension. \<^verbatim>\<open>slice.sliceName\<close> is the name the
  slice was added under, \<^verbatim>\<open>item.name\<close>.\<close>

definition inlineExtensionItem ::
  "Collaborators \<Rightarrow> FshDefinition \<Rightarrow> string \<Rightarrow> ref \<Rightarrow> nat \<Rightarrow> ContainsRuleItem \<Rightarrow> ExportState
     \<Rightarrow> ExportState \<times> Error option" where
  "inlineExtensionItem env fshDefinition rulePath r e item st =
     (case addSlice (sd_name (theSd st r)) (item_name item) (elementsOf st r) (elementsOf st r ! e) of
        Inl err \<Rightarrow> (logger_error (ErrorMessage err) st, None)
      | Inr (els, pos) \<Rightarrow>
          (let st = setElements r els st;
               (els, found) = findElementByPath env (elementsOf st r)
                                (rulePath @ ''['' @ item_name item @ ''].url'');
               st = setElements r els st
           in case validIndex els found of
                None \<Rightarrow>
                  (logger_error (ErrorMessage (TypeError ''Cannot read properties of undefined'')) st, None)
              | Some urlElement \<Rightarrow>
                  (let (els, err) = assignValue env (StringValue (item_name item)) True
                                      (elementsOf st r) urlElement;
                       st = setElements r els st
                   in case err of
                        Some x \<Rightarrow> (logger_error (ErrorMessage x) st, None)
                      | None \<Rightarrow>
                          (if isProfile fshDefinition \<or> isLogical fshDefinition
                           then logger_error (Text ''Inline extensions should only be defined in Extensions.'') st
                           else st, None))))"

fun handleExtensionItems ::
  "Collaborators \<Rightarrow> FshDefinition \<Rightarrow> string \<Rightarrow> ref \<Rightarrow> nat \<Rightarrow> ContainsRuleItem list \<Rightarrow> ExportState
     \<Rightarrow> ExportState \<times> Error option" where
  "handleExtensionItems env fshDefinition rulePath r e [] st = (st, None)"
| "handleExtensionItems env fshDefinition rulePath r e (item # items) st =
     (case (case item_type item of
              None \<Rightarrow> inlineExtensionItem env fshDefinition rulePath r e item st
            | Some ty \<Rightarrow>
                if ty = [] then inlineExtensionItem env fshDefinition rulePath r e item st
                else standaloneExtensionItem env r e item ty st) of
        (st', Some err) \<Rightarrow> (st', Some err)
      | (st', None) \<Rightarrow> handleExtensionItems env fshDefinition rulePath r e items st')"

definition handleExtensionContainsRule ::
  "Collaborators \<Rightarrow> FshDefinition \<Rightarrow> string \<Rightarrow> ContainsRuleItem list \<Rightarrow> ref \<Rightarrow> nat \<Rightarrow> ExportState
     \<Rightarrow> ExportState \<times> Error option" where
  "handleExtensionContainsRule env fshDefinition rulePath items r e st =
     (let st = (if el_slicing (elementsOf st r ! e) = None
                then updElement r e (sliceIt ''value'' ''url'') st else st)
      in handleExtensionItems env fshDefinition rulePath r e items st)"

subsection \<open>setRules\<close>

fun isAddElementRule :: "Rule \<Rightarrow> bool" where
  "isAddElementRule (AddElementRule _ _) = True"
| "isAddElementRule _ = False"

definition applyAddElementRule :: "Collaborators \<Rightarrow> ref \<Rightarrow> ExportState \<Rightarrow> Rule \<Rightarrow> ExportState" where
  "applyAddElementRule env r st rule =
     (let (els, err) = addElement env rule (elementsOf st r) in logThrown err (setElements r els st))"

text \<open>\<^verbatim>\<open>deferredRules\<close> is a \<^verbatim>\<open>Map\<close> keyed by the structure definition object.\<close>

fun pushDeferred :: "ref \<Rightarrow> Rule \<Rightarrow> (ref \<times> Rule list) list \<Rightarrow> (ref \<times> Rule list) list" where
  "pushDeferred r rule [] = [(r, [rule])]"
| "pushDeferred r rule ((k, rs) # m) =
     (if k = r then (k, rs @ [rule]) # m else (k, rs) # pushDeferred r rule m)"

text \<open>The block \<^verbatim>\<open>if (rule instanceof CaretValueRule) { try { ... } catch ... }\<close>.
  \<^verbatim>\<open>replaceReferences\<close> hands back a copy of the rule with its value replaced.\<close>

definition applyCaretValueRule ::
  "Collaborators \<Rightarrow> FshDefinition \<Rightarrow> ref \<Rightarrow> nat option \<Rightarrow> string \<Rightarrow> string \<Rightarrow> FshValue \<Rightarrow> bool
     \<Rightarrow> ExportState \<Rightarrow> ExportState" where
  "applyCaretValueRule env fshDefinition r element p caretPath v isInst st =
     (case replaceReferences env v (tank st) of
        Inl err \<Rightarrow> logger_error (ErrorMessage err) st
      | Inr v' \<Rightarrow>
          if p \<noteq> [] then
            (case element of
               Some e \<Rightarrow> tryElementOp r e (element_setInstancePropertyByPath env caretPath v') st
             | None \<Rightarrow>
                 logger_error (Text (''No element found at path '' @ [CHR 0x27] @ p @ [CHR 0x27]
                   @ '' for '' @ [CHR 0x27] @ name (entity fshDefinition) @ [CHR 0x27]
                   @ '', skipping element-based CaretValueRule'')) st)
          else if isInst then
            st\<lparr>deferredRules := pushDeferred r (CaretValueRule p caretPath v' isInst) (deferredRules st)\<rparr>
          else
            (let (sd, err) = sd_setInstancePropertyByPath env caretPath v' (theSd st r)
             in logThrown err (updSd r (\<lambda>_. sd) st)))"

definition assignReplaced ::
  "Collaborators \<Rightarrow> ref \<Rightarrow> nat \<Rightarrow> FshValue \<Rightarrow> bool \<Rightarrow> ExportState \<Rightarrow> ExportState" where
  "assignReplaced env r e v exactly st =
     (case replaceReferences env v (tank st) of
        Inl err \<Rightarrow> logger_error (ErrorMessage err) st
      | Inr v' \<Rightarrow> tryElementOp r e (assignValue env v' exactly) st)"

text \<open>A slice on an element that is not an extension: \<^verbatim>\<open>rule.items.forEach(item => ...)\<close>.\<close>

definition addPlainSlice :: "string \<Rightarrow> ref \<Rightarrow> nat \<Rightarrow> ExportState \<Rightarrow> ContainsRuleItem \<Rightarrow> ExportState" where
  "addPlainSlice rulePath r e st item =
     (let st = (if truthy (item_type item) then
                  logger_error (Text (''Cannot specify type on '' @ item_name item @ '' slice since ''
                    @ rulePath @ '' is not an extension path.'')) st
                else st)
      in case addSlice (sd_name (theSd st r)) (item_name item) (elementsOf st r) (elementsOf st r ! e) of
           Inl err \<Rightarrow> logger_error (ErrorMessage err) st
         | Inr (els, pos) \<Rightarrow> setElements r els st)"

text \<open>The block \<^verbatim>\<open>if (element) { try { ... } catch (e) { logger.error(e.message, ...) } }\<close>,
  a branch per rule class. For an ObeysRule the constraint is applied first and the
  invariant's name is tested afterwards; the error thrown by the test is caught and logged.\<close>

definition applyToElement ::
  "Collaborators \<Rightarrow> FshDefinition \<Rightarrow> ref \<Rightarrow> nat \<Rightarrow> Rule \<Rightarrow> ExportState \<Rightarrow> ExportState" where
  "applyToElement env fshDefinition r e rule st =
     (case rule of
        CardRule p mn mx \<Rightarrow> tryElementOp r e (constrainCardinality env mn mx) st
      | AssignmentRule p v exactly isInst \<Rightarrow>
          (if isInst then
             (case instanceExporter_fishForFHIR env (tank st) v of
                None \<Rightarrow>
                  (case el_type (elementsOf st r ! e) of
                     Some [t] \<Rightarrow>
                       logger_error (Text (''Cannot assign Instance at path '' @ p
                         @ '' to element of type '' @ ty_code t
                         @ ''. Definition not found for Instance: '' @ valueToString (common env) v
                         @ ''.'')) st
                   | _ \<Rightarrow>
                       logger_error (Text (''Cannot find definition for Instance: ''
                         @ valueToString (common env) v @ ''. Skipping rule.'')) st)
              | Some instance \<Rightarrow> assignReplaced env r e instance exactly st)
           else assignReplaced env r e v exactly st)
      | FlagRule p flags \<Rightarrow> tryElementOp r e (applyFlags env flags) st
      | OnlyRule p types \<Rightarrow>
          (let target = getReferenceName env p (elementsOf st r) e
           in tryElementOp r e (constrainType env rule target) st)
      | BindingRule p valueSet strength \<Rightarrow>
          (let vsURI = (case MasterFisher_fishForMetadata env st valueSet [Type.ValueSet] of
                          None \<Rightarrow> valueSet
                        | Some meta \<Rightarrow> (case m_url meta of None \<Rightarrow> valueSet | Some u \<Rightarrow> u))
           in tryElementOp r e (bindToVS env vsURI strength) st)
      | ContainsRule p items \<Rightarrow>
          (let element = elementsOf st r ! e;
               isExt = ((case el_type element of Some [t] \<Rightarrow> ty_code t = ''Extension'' | _ \<Rightarrow> False)
                        \<and> \<not> truthy (el_sliceName element))
           in if isExt then
                (let (st', err) = handleExtensionContainsRule env fshDefinition p items r e st
                 in logThrown err st')
              else foldl (addPlainSlice p r e) st items)
      | ObeysRule p invariantName \<Rightarrow>
          (case fish (common env) (tank st) invariantName [Type.Invariant] of
             Some (Invariant invariant) \<Rightarrow>
               (let st = updElement r e (applyConstraint invariant (sd_url (theSd st r))) st
                in if \<not> idRegex_test env (name invariant)
                   then logger_error (ErrorMessage (InvalidFHIRIdError (name invariant))) st
                   else st)
           | _ \<Rightarrow>
               logger_error (Text (''Cannot apply '' @ invariantName @ '' constraint on '' @ sd_id (theSd st r)
                 @ '' because it was never defined.'')) st)
      | CaretValueRule p caretPath v isInst \<Rightarrow> st
      | AddElementRule p x \<Rightarrow> st)"

text \<open>The body of \<^verbatim>\<open>for (const rule of sdRules)\<close>.\<close>

definition applySdRule ::
  "Collaborators \<Rightarrow> FshDefinition \<Rightarrow> ref \<Rightarrow> ExportState \<Rightarrow> Rule \<Rightarrow> ExportState" where
  "applySdRule env fshDefinition r st rule =
     (let (els, found) = findElementByPath env (elementsOf st r) (path rule);
          st = setElements r els st;
          element = validIndex els found;
          st = (case rule of
                  CaretValueRule p caretPath v isInst \<Rightarrow>
                    applyCaretValueRule env fshDefinition r element p caretPath v isInst st
                | _ \<Rightarrow> st)
      in case element of
           Some e \<Rightarrow> applyToElement env fshDefinition r e rule st
         | None \<Rightarrow>
             logger_error (Text (''No element found at path '' @ path rule @ '' for ''
               @ name (entity fshDefinition) @ '', skipping rule'')) st)"

definition setRules ::
  "Collaborators \<Rightarrow> ref \<Rightarrow> FshDefinition \<Rightarrow> ExportState \<Rightarrow> FshDefinition \<times> ExportState" where
  "setRules env r fshDefinition st =
     (let d = setRulesOf (resolveSoftIndexing env (rules (entity fshDefinition))) fshDefinition;
          st = st\<lparr>tank := replaceDefinition fshDefinition d (tank st)\<rparr>;
          addElementRules = filter isAddElementRule (rules (entity d));
          sdRules = filter (\<lambda>rule. \<not> isAddElementRule rule) (rules (entity d));
          st = foldl (applyAddElementRule env r) st addElementRules;
          st = foldl (applySdRule env d r) st sdRules
      in (d, st))"

subsection \<open>fishForFHIR, getStructureDefinition, exportStructDef\<close>

text \<open>
  \<^verbatim>\<open>exportStructDef\<close> calls \<^verbatim>\<open>getStructureDefinition\<close>, which calls \<^verbatim>\<open>fishForFHIR\<close>, which
  calls \<^verbatim>\<open>exportStructDef\<close> on the parent. Nothing bounds this recursion, so a call may
  never return: the outcome of a call is \<open>None\<close> when it does not return, and otherwise the
  value or the error thrown, with the state reached. The three functions are written
  against the method \<^verbatim>\<open>this.exportStructDef\<close> they call back, and the knot is tied by
  \<open>exportStructDef\<close> below, which counts the depth of nested exports still allowed.

  The model has no call stack. In the running program a recursion that never returns ends
  when the stack is exhausted, with a \<^verbatim>\<open>RangeError\<close> that the loop of \<^verbatim>\<open>export\<close> (lines 746-750)
  catches and logs before it goes on with the next entity. That loop is not modelled: the
  properties below are about single calls of \<^verbatim>\<open>exportStructDef\<close>.
\<close>

type_synonym 'a Outcome = "((Error + 'a) \<times> ExportState) option"

definition fishForFHIR ::
  "(FshDefinition \<Rightarrow> ExportState \<Rightarrow> ref option Outcome) \<Rightarrow> Collaborators \<Rightarrow> string option
     \<Rightarrow> Type list \<Rightarrow> ExportState \<Rightarrow> StructureDefinition option Outcome" where
  "fishForFHIR this_exportStructDef env item types st =
     (case MasterFisher_fishForFHIR env st item types of
        Some result \<Rightarrow> Some (Inr (Some result), st)
      | None \<Rightarrow>
          if types = [] \<or> list_ex (\<lambda>t. t = Type.Profile \<or> t = Type.Extension \<or> t = Type.Logical) types
          then
            (case (case item of
                     Some it \<Rightarrow>
                       fish (common env) (tank st) it [Type.Profile, Type.Extension, Type.Logical]
                   | None \<Rightarrow>
                       fishTypes (common env) (tank st) [] None
                         [Type.Profile, Type.Extension, Type.Logical]) of
               None \<Rightarrow> Some (Inr None, st)
             | Some fshDefinition \<Rightarrow>
                 (case this_exportStructDef fshDefinition st of
                    None \<Rightarrow> None
                  | Some (Inl err, st') \<Rightarrow> Some (Inl err, st')
                  | Some (Inr exported, st') \<Rightarrow>
                      Some (Inr (MasterFisher_fishForFHIR env st' item types), st')))
          else Some (Inr None, st))"

text \<open>\<^verbatim>\<open>getStructureDefinition\<close> hands back the parent's structure definition together with
  the entity, whose parent it may have set.\<close>

definition getStructureDefinition ::
  "(FshDefinition \<Rightarrow> ExportState \<Rightarrow> ref option Outcome) \<Rightarrow> Collaborators \<Rightarrow> FshDefinition
     \<Rightarrow> ExportState \<Rightarrow> (StructureDefinition \<times> FshDefinition) Outcome" where
  "getStructureDefinition this_exportStructDef env fshDefinition st =
     (case (if isEmpty (defParent fshDefinition) then
              (case fshDefinition of
                 Profile p \<Rightarrow> Inl (ParentNotProvidedError (name p))
               | Extension e \<Rightarrow> Inr (Extension (e\<lparr>parent := Some ''Extension''\<rparr>))
               | Logical l \<Rightarrow> Inr (Logical (l\<lparr>parent := Some ''Element''\<rparr>))
               | _ \<Rightarrow> Inr fshDefinition)
            else Inr fshDefinition) of
        Inl err \<Rightarrow> Some (Inl err, st)
      | Inr d \<Rightarrow>
          (let st = st\<lparr>tank := replaceDefinition fshDefinition d (tank st)\<rparr>;
               parentName = defParent d;
               defnType = (if isExtension d then Type.Extension
                           else if isLogical d then Type.Logical else Type.Resource)
           in if Some (name (entity d)) = parentName then
                Some (Inl (ParentDeclaredAsNameError (constructorName d) (name (entity d))
                        (case MasterFisher_fishForMetadata env st (name (entity d)) [defnType] of
                           None \<Rightarrow> None | Some result \<Rightarrow> m_url result)), st)
              else if Some (id' (entity d)) = parentName then
                Some (Inl (ParentDeclaredAsIdError (constructorName d) (name (entity d)) (id' (entity d))
                        (case MasterFisher_fishForMetadata env st (id' (entity d)) [defnType] of
                           None \<Rightarrow> None | Some result \<Rightarrow> m_url result)), st)
              else
                (case fishForFHIR this_exportStructDef env parentName [] st of
                   None \<Rightarrow> None
                 | Some (Inl err, st') \<Rightarrow> Some (Inl err, st')
                 | Some (Inr None, st') \<Rightarrow>
                     Some (Inl (ParentNotDefinedError (name (entity d)) parentName), st')
                 | Some (Inr (Some parentJson), st') \<Rightarrow>
                     if isProfile d \<and> sd_kind parentJson = ''logical'' then
                       Some (Inl (InvalidProfileParentError (name (entity d)) parentName), st')
                     else if isExtension d \<and> sd_type parentJson \<noteq> ''Extension'' then
                       Some (Inl (InvalidExtensionParentError (name (entity d)) parentName), st')
                     else if isLogical d
                             \<and> \<not> (sd_kind parentJson = ''logical'' \<or> sd_type parentJson = ''Element'') then
                       Some (Inl (InvalidLogicalParentError (name (entity d)) parentName), st')
                     else Some (Inr (parentJson, d), st'))))"

text \<open>The three blocks of \<^verbatim>\<open>exportStructDef\<close> that the claims speak about, each as the
  source has it: the test that opens the function, the push into the package, and the
  check for another structure definition with the same id.\<close>

definition alreadyExported :: "FshDefinition \<Rightarrow> ExportState \<Rightarrow> bool" where
  "alreadyExported fshDefinition st =
     (list_ex (\<lambda>sd. sd_name sd = name (entity fshDefinition)) (artifacts st (profiles (pkg st)))
      \<or> list_ex (\<lambda>sd. sd_name sd = name (entity fshDefinition)) (artifacts st (extensions (pkg st)))
      \<or> list_ex (\<lambda>sd. sd_name sd = name (entity fshDefinition)) (artifacts st (logicals (pkg st))))"

definition pushStructDef :: "StructureDefinition \<Rightarrow> ExportState \<Rightarrow> ref \<times> ExportState" where
  "pushStructDef structDef st =
     (let r = length (heap st);
          st = st\<lparr>heap := heap st @ [structDef]\<rparr>
      in (r,
          if sd_type structDef = ''Extension'' then
            st\<lparr>pkg := (pkg st)\<lparr>extensions := extensions (pkg st) @ [r]\<rparr>\<rparr>
          else if sd_kind structDef = ''logical'' then
            st\<lparr>pkg := (pkg st)\<lparr>logicals := logicals (pkg st) @ [r]\<rparr>\<rparr>
          else
            st\<lparr>pkg := (pkg st)\<lparr>profiles := profiles (pkg st) @ [r]\<rparr>\<rparr>))"

definition sameIdElsewhere :: "ExportState \<Rightarrow> ref \<Rightarrow> ref list \<Rightarrow> bool" where
  "sameIdElsewhere st r rs =
     list_ex (\<lambda>other. map_option sd_id (deref st other) = Some (sd_id (theSd st r)) \<and> r \<noteq> other) rs"

definition hasDuplicateId :: "ExportState \<Rightarrow> ref \<Rightarrow> bool" where
  "hasDuplicateId st r =
     (sameIdElsewhere st r (profiles (pkg st))
      \<or> sameIdElsewhere st r (extensions (pkg st))
      \<or> sameIdElsewhere st r (logicals (pkg st)))"

definition duplicateIdError :: "string \<Rightarrow> LogEntry" where
  "duplicateIdError i =
     (ERROR, Text (''Multiple structure definitions with id '' @ i
        @ ''. Each structure definition must have a unique id.''))"

definition checkDuplicateId :: "ref \<Rightarrow> ExportState \<Rightarrow> ExportState" where
  "checkDuplicateId r st =
     (if hasDuplicateId st r then st\<lparr>logged := logged st @ [duplicateIdError (sd_id (theSd st r))]\<rparr>
      else st)"

definition circularWarning :: "FshDefinition \<Rightarrow> LogEntry" where
  "circularWarning fshDefinition =
     (WARN, Text (''The definition of '' @ name (entity fshDefinition)
        @ '' may be incomplete because there is a circular dependency with its parent ''
        @ showOpt (defParent fshDefinition)
        @ '' causing the parent to be used before the parent has been fully processed.''))"

text \<open>The body of \<^verbatim>\<open>exportStructDef\<close>. A structure definition returned is the reference
  under which it was pushed; \<open>Inr None\<close> is the bare \<^verbatim>\<open>return;\<close> of the opening test, which
  yields \<^verbatim>\<open>undefined\<close>. The rule lists carry no insert or mixin rules, so
  \<^verbatim>\<open>applyMixinRules\<close> and \<^verbatim>\<open>applyInsertRules\<close> have nothing to expand.\<close>

definition exportStructDef_body ::
  "(FshDefinition \<Rightarrow> ExportState \<Rightarrow> ref option Outcome) \<Rightarrow> Collaborators \<Rightarrow> FshDefinition
     \<Rightarrow> ExportState \<Rightarrow> ref option Outcome" where
  "exportStructDef_body this_exportStructDef env fshDefinition st =
     (if alreadyExported fshDefinition st then Some (Inr None, st)
      else
        (case getStructureDefinition this_exportStructDef env fshDefinition st of
           None \<Rightarrow> None
         | Some (Inl err, st) \<Rightarrow> Some (Inl err, st)
         | Some (Inr (structDef, d), st) \<Rightarrow>
             (let st = (if sd_inProgress structDef
                        then st\<lparr>logged := logged st @ [circularWarning d]\<rparr> else st);
                  structDef = structDef\<lparr>sd_inProgress := True\<rparr>;
                  structDef = (if isLogical d then
                                 structDef\<lparr>sd_elements :=
                                   resetRootIdAndPath env (id' (entity d)) (sd_elements structDef)\<rparr>
                               else structDef)
              in case setMetadata env (tank st) structDef d of
                   Inl err \<Rightarrow> Some (Inl err, st)
                 | Inr structDef \<Rightarrow>
                     (let (r, st) = pushStructDef structDef st;
                          (d, st) = preprocessStructureDefinition d (sd_type structDef = ''Extension'') st;
                          (d, st) = setRules env r d st;
                          st = updSd r (cleanResource env) st;
                          st = updSd r (\<lambda>sd. sd\<lparr>sd_inProgress := False\<rparr>) st;
                          st = checkDuplicateId r st
                      in Some (Inr (Some r), st)))))"

primrec exportStructDef ::
  "nat \<Rightarrow> Collaborators \<Rightarrow> FshDefinition \<Rightarrow> ExportState \<Rightarrow> ref option Outcome" where
  "exportStructDef 0 env fshDefinition st =
     exportStructDef_body (\<lambda>d s. None) env fshDefinition st"
| "exportStructDef (Suc depth) env fshDefinition st =
     exportStructDef_body (exportStructDef depth env) env fshDefinition st"

section \<open>The claims' own words, as definitions\<close>

subsection \<open>Resolution order of the symbol resolver\<close>

text \<open>The order in which kinds are tried when no kind is asked for, and "first match
  wins": the first kind of the list for which the resolver finds something decides.\<close>

definition resolutionOrder :: "Type list" where
  "resolutionOrder =
     [Type.Profile, Type.Extension, Type.Logical, Type.Resource, Type.ValueSet,
      Type.CodeSystem, Type.Instance, Type.Invariant, Type.RuleSet, Type.Mapping]"

definition firstMatch :: "('a \<Rightarrow> 'b option) \<Rightarrow> 'a list \<Rightarrow> 'b option" where
  "firstMatch f xs = (case List.map_filter f xs of [] \<Rightarrow> None | r # rest \<Rightarrow> Some r)"

definition matchesIdentifier :: "Common \<Rightarrow> FSHTank \<Rightarrow> string \<Rightarrow> string option \<Rightarrow> FshDefinition \<Rightarrow> bool" where
  "matchesIdentifier c tnk base ver d =
     ((name (entity d) = base \<or> id' (entity d) = base
         \<or> getUrlFromFshDefinition c d (canonical (config tnk)) = base)
      \<and> (ver = None \<or> ver = getVersionFromFshDefinition c d (version (config tnk))))"

definition declaresKind :: "Type \<Rightarrow> Rule list \<Rightarrow> bool" where
  "declaresKind t rs =
     (case t of
        Type.Profile \<Rightarrow> list_ex (assignsCode ''derivation'' ''constraint'') rs
                         \<and> \<not> list_ex (assignsString ''type'' ''Extension'') rs
      | Type.Extension \<Rightarrow> list_ex (assignsCode ''derivation'' ''constraint'') rs
                           \<and> list_ex (assignsString ''type'' ''Extension'') rs
      | Type.Logical \<Rightarrow> list_ex (assignsCode ''derivation'' ''specialization'') rs
                         \<and> list_ex (assignsCode ''kind'' ''logical'') rs
      | Type.Resource \<Rightarrow> list_ex (assignsCode ''derivation'' ''specialization'') rs
                          \<and> list_ex (assignsCode ''kind'' ''resource'') rs
      | _ \<Rightarrow> False)"

definition isDefinitionOfKind ::
  "Common \<Rightarrow> FSHTank \<Rightarrow> string \<Rightarrow> string option \<Rightarrow> Type \<Rightarrow> FshInstance \<Rightarrow> bool" where
  "isDefinitionOfKind c tnk base ver t i =
     (instanceOf i = ''StructureDefinition'' \<and> usage i = ''Definition''
      \<and> matchesIdentifier c tnk base ver (Instance i) \<and> declaresKind t (rules i))"

subsection \<open>The url of an Instance's metadata\<close>

text \<open>The value of the last AssignmentRule at path \<^verbatim>\<open>url\<close> whose value is a string.\<close>

fun stringUrlOf :: "Rule \<Rightarrow> string option" where
  "stringUrlOf (AssignmentRule p (StringValue v) _ _) = (if p = ''url'' then Some v else None)"
| "stringUrlOf _ = None"

definition lastAssignedUrl :: "Rule list \<Rightarrow> string option" where
  "lastAssignedUrl rs =
     (case List.map_filter stringUrlOf rs of [] \<Rightarrow> None | x # xs \<Rightarrow> Some (last (x # xs)))"

section \<open>Example data\<close>

text \<open>Concrete collaborators, tanks and entities on which the theorems below are run.
  The example's \<^verbatim>\<open>parseInt\<close> drops leading zeros, which is what the function does on up to
  fifteen digits.\<close>

definition exampleCommon :: Common where
  "exampleCommon =
     \<lparr>getUrlFromFshDefinition = (\<lambda>d canon. canon @ ''/StructureDefinition/'' @ id' (entity d)),
      getVersionFromFshDefinition = (\<lambda>d v. v),
      valueToString = (\<lambda>v. case v of StringValue s \<Rightarrow> s | _ \<Rightarrow> ''?''),
      parseInt = (\<lambda>ds. case dropWhile (\<lambda>ch. ch = CHR ''0'') ds of [] \<Rightarrow> ''0'' | n \<Rightarrow> n),
      LOGICAL_TARGET_EXTENSION = ''http://hl7.org/fhir/tools/StructureDefinition/logical-target'',
      TYPE_CHARACTERISTICS_EXTENSION =
        ''http://hl7.org/fhir/StructureDefinition/structuredefinition-type-characteristics''\<rparr>"

definition emptyDocument :: FSHDocument where
  "emptyDocument =
     \<lparr>doc_profiles = [], doc_extensions = [], doc_logicals = [], doc_resources = [],
      doc_instances = [], doc_valueSets = [], doc_codeSystems = [], doc_invariants = [],
      doc_ruleSets = [], doc_mappings = [], aliases = []\<rparr>"

definition exampleConfig :: Configuration where
  "exampleConfig =
     \<lparr>canonical = ''http://example.org'', version = Some ''1.0.0'',
      applyExtensionMetadataToRoot = None\<rparr>"

definition exampleInstance :: FshInstance where
  "exampleInstance =
     \<lparr>name = ''MyVS'', id' = ''my-vs'', title = None, description = None,
      rules = [AssignmentRule ''url'' (StringValue ''http://example.org/a'') False False,
               AssignmentRule ''name'' (StringValue ''Other'') False False,
               AssignmentRule ''url'' (StringValue ''http://example.org/b'') False False],
      instanceOf = ''ValueSet'', usage = ''Definition''\<rparr>"

definition instanceTank :: FSHTank where
  "instanceTank = \<lparr>docs = [emptyDocument\<lparr>doc_instances := [exampleInstance]\<rparr>], config = exampleConfig\<rparr>"

definition frame :: "ExportState \<Rightarrow> ExportState \<Rightarrow> bool" where
  "frame st st' = (pkg st' = pkg st \<and> length (heap st') = length (heap st))"

definition published_refs :: "Package \<Rightarrow> ref list" where
  "published_refs p = profiles p @ extensions p @ logicals p"

definition blankElement :: "string \<Rightarrow> ElementDefinition" where
  "blankElement p =
     \<lparr>el_id = p, el_path = p, el_sliceName = None, el_min = Some 0, el_max = Some ''*'',
      el_type = None, el_slicing = None, el_constraint = [], el_fixedUri = None,
      el_short = None, el_definition = None, el_other = []\<rparr>"

definition tinyDefinition ::
  "string \<Rightarrow> string \<Rightarrow> string \<Rightarrow> string \<Rightarrow> bool \<Rightarrow> StructureDefinition" where
  "tinyDefinition n i knd ty prog =
     \<lparr>sd_id = i, sd_meta = None, sd_implicitRules = None, sd_language = None, sd_text = None,
      sd_contained = None, sd_extension = None, sd_modifierExtension = None,
      sd_url = ''u:'' @ i, sd_identifier = None,
      sd_version = None, sd_name = n, sd_title = None, sd_status = None,
      sd_experimental = None, sd_date = None, sd_publisher = None,
      sd_contact = None, sd_description = None, sd_useContext = None, sd_jurisdiction = None,
      sd_purpose = None, sd_copyright = None, sd_keyword = None, sd_kind = knd,
      sd_abstract = None, sd_context = None, sd_contextInvariant = None, sd_type = ty,
      sd_baseDefinition = None, sd_derivation = None,
      sd_elements = [], sd_inProgress = prog, sd_other = []\<rparr>"

text \<open>In the example collaborators an element is addressed by its id without the root
  segment, an id is well-formed when it is not empty, has at most 64 characters and neither
  an underscore nor a blank, and the other operations leave the elements as they are.\<close>

definition examplePathOf :: "ElementDefinition \<Rightarrow> string" where
  "examplePathOf e = drop 1 (dropWhile (\<lambda>ch. ch \<noteq> CHR ''.'') (el_id e))"

definition exampleIdOk :: "string \<Rightarrow> bool" where
  "exampleIdOk s = (s \<noteq> [] \<and> length s \<le> 64 \<and> list_all (\<lambda>ch. ch \<noteq> CHR ''_'' \<and> ch \<noteq> CHR '' '') s)"

definition exampleCollaborators :: Collaborators where
  "exampleCollaborators =
     \<lparr>common = exampleCommon,
      fhirDefs = [],
      idRegex_test = exampleIdOk,
      findElementByPath = (\<lambda>els p. (els, findIndex (\<lambda>e. examplePathOf e = p) els)),
      addElement = (\<lambda>rule els. (els @ [blankElement (path rule)], None)),
      constrainCardinality =
        (\<lambda>mn mx els e. (els[e := (els ! e)\<lparr>el_min := mn, el_max := Some mx\<rparr>], None)),
      assignValue = (\<lambda>v exactly els e. (els, None)),
      applyFlags = (\<lambda>flags els e. (els, None)),
      getReferenceName = (\<lambda>p els e. None),
      constrainType = (\<lambda>rule target els e. (els, None)),
      bindToVS = (\<lambda>vs strength els e. (els, None)),
      element_setInstancePropertyByPath = (\<lambda>caretPath v els e. (els, None)),
      sd_setInstancePropertyByPath = (\<lambda>caretPath v sd. (sd, None)),
      replaceReferences = (\<lambda>v t. Inr v),
      instanceExporter_fishForFHIR = (\<lambda>t v. None),
      resolveSoftIndexing = (\<lambda>rs. rs),
      cleanResource = (\<lambda>sd. sd),
      resetRootIdAndPath = (\<lambda>i els. els)\<rparr>"

definition fshStructure :: "string \<Rightarrow> string \<Rightarrow> string option \<Rightarrow> Rule list \<Rightarrow> FshStructure" where
  "fshStructure n i p rs =
     \<lparr>name = n, id' = i, title = None, description = None, rules = rs, parent = p,
      characteristics = []\<rparr>"

definition tankOf :: "FSHDocument \<Rightarrow> FSHTank" where
  "tankOf doc = \<lparr>docs = [doc], config = exampleConfig\<rparr>"

definition startState :: "FSHTank \<Rightarrow> ExportState" where
  "startState t =
     \<lparr>tank = t, pkg = \<lparr>profiles = [], extensions = [], logicals = []\<rparr>, heap = [],
      deferredRules = [], logged = []\<rparr>"

text \<open>A profile C with id x whose parent B is in the package and still in progress, while
  the package also holds an extension E with id x.\<close>

definition childProfile :: FshStructure where
  "childProfile = fshStructure ''C'' ''x'' (Some ''B'') []"

definition busyState :: ExportState where
  "busyState =
     \<lparr>tank = tankOf (emptyDocument\<lparr>doc_profiles := [childProfile]\<rparr>),
      pkg = \<lparr>profiles = [0], extensions = [1], logicals = []\<rparr>,
      heap = [tinyDefinition ''B'' ''b'' ''resource'' ''P'' True,
              tinyDefinition ''E'' ''x'' ''complex-type'' ''Extension'' False],
      deferredRules = [], logged = []\<rparr>"

definition childArtifact :: StructureDefinition where
  "childArtifact =
     (tinyDefinition ''C'' ''x'' ''resource'' ''P'' False)
       \<lparr>sd_url := ''http://example.org/StructureDefinition/x'', sd_version := Some ''1.0.0'',
        sd_status := Some ''active'', sd_abstract := Some False,
        sd_baseDefinition := Some ''u:b'', sd_derivation := Some ''constraint''\<rparr>"

definition afterChild :: ExportState where
  "afterChild =
     busyState
       \<lparr>pkg := \<lparr>profiles = [0, 2], extensions = [1], logicals = []\<rparr>,
        heap := heap busyState @ [childArtifact],
        logged := [circularWarning (Profile childProfile), duplicateIdError ''x'']\<rparr>"

text \<open>Two profiles that name each other as parent, and a profile that names itself.\<close>

definition cycA :: FshStructure where
  "cycA = fshStructure ''A'' ''a'' (Some ''B'') []"

definition cycB :: FshStructure where
  "cycB = fshStructure ''B'' ''b'' (Some ''A'') []"

definition cycleState :: ExportState where
  "cycleState = startState (tankOf (emptyDocument\<lparr>doc_profiles := [cycA, cycB]\<rparr>))"

definition selfProfile :: FshStructure where
  "selfProfile = fshStructure ''S'' ''s'' (Some ''S'') []"

definition logicalModel :: FshStructure where
  "logicalModel = fshStructure ''L'' ''l'' (Some ''B'') []"

text \<open>A structure definition with two elements in the package, and a tank that declares an
  invariant whose name is not a well-formed id and one whose name is.\<close>

definition badInvariant :: FshInvariant where
  "badInvariant =
     \<lparr>name = ''bad_id'', id' = ''bad_id'', title = None, description = Some ''must hold'',
      rules = [], expression = Some ''name.exists()'', xpath = None,
      severity = Some (FshCode ''error'' None)\<rparr>"

definition goodInvariant :: FshInvariant where
  "goodInvariant = badInvariant\<lparr>name := ''inv-1'', id' := ''inv-1''\<rparr>"

definition obeysState :: ExportState where
  "obeysState =
     \<lparr>tank = tankOf (emptyDocument\<lparr>doc_invariants := [badInvariant, goodInvariant]\<rparr>),
      pkg = \<lparr>profiles = [0], extensions = [], logicals = []\<rparr>,
      heap = [(tinyDefinition ''C'' ''x'' ''resource'' ''P'' True)
                \<lparr>sd_elements := [blankElement ''P'', blankElement ''P.name'']\<rparr>],
      deferredRules = [], logged = []\<rparr>"

definition constraintOf :: "FshInvariant \<Rightarrow> string \<Rightarrow> ElementDefinitionConstraint" where
  "constraintOf invariant source =
     \<lparr>con_key = name invariant, con_human = description invariant,
      con_expression = expression invariant,
      con_severity = map_option code (severity invariant),
      con_source = source\<rparr>"

definition newSlice :: "ElementDefinition \<Rightarrow> string \<Rightarrow> ElementDefinition" where
  "newSlice e n = e\<lparr>el_id := el_id e @ '':'' @ n, el_sliceName := Some n, el_slicing := None\<rparr>"

definition slicesNamed :: "ExportState \<Rightarrow> ref \<Rightarrow> nat \<Rightarrow> string \<Rightarrow> ElementDefinition list" where
  "slicesNamed st r e n =
     filter (\<lambda>x. el_sliceName x = Some n) (getSlices (elementsOf st r) (elementsOf st r ! e))"

definition declareExtension ::
  "Collaborators \<Rightarrow> FshDefinition \<Rightarrow> string \<Rightarrow> string \<Rightarrow> string \<Rightarrow> ref \<Rightarrow> nat \<Rightarrow> ExportState
     \<Rightarrow> ExportState \<times> Error option" where
  "declareExtension env d p n ty r e st =
     handleExtensionContainsRule env d p [ContainsRuleItem n (Some ty)] r e st"

definition header :: "StructureDefinition \<Rightarrow> StructureDefinition" where
  "header sd = sd\<lparr>sd_elements := []\<rparr>"

definition withProfile :: "ElementDefinition \<Rightarrow> string option \<Rightarrow> ElementDefinition" where
  "withProfile s u =
     (case el_type s of
        Some (t # ts) \<Rightarrow>
          s\<lparr>el_type := Some (t\<lparr>ty_profile := Some ((case ty_profile t of None \<Rightarrow> [] | Some ps \<Rightarrow> ps) @ [u])\<rparr> # ts)\<rparr>
      | _ \<Rightarrow> s)"

definition nestedExport ::
  "nat \<Rightarrow> Collaborators \<Rightarrow> FshDefinition \<Rightarrow> ExportState \<Rightarrow> ref option Outcome" where
  "nestedExport depth env = (case depth of 0 \<Rightarrow> (\<lambda>d s. None) | Suc n \<Rightarrow> exportStructDef n env)"

definition warnIfInProgress :: "StructureDefinition \<Rightarrow> FshDefinition \<Rightarrow> ExportState \<Rightarrow> ExportState" where
  "warnIfInProgress structDef d st =
     (if sd_inProgress structDef then st\<lparr>logged := logged st @ [circularWarning d]\<rparr> else st)"

definition intoProgress :: "Collaborators \<Rightarrow> StructureDefinition \<Rightarrow> FshDefinition \<Rightarrow> StructureDefinition" where
  "intoProgress env structDef d =
     (let structDef = structDef\<lparr>sd_inProgress := True\<rparr>
      in if isLogical d then
           structDef\<lparr>sd_elements := resetRootIdAndPath env (id' (entity d)) (sd_elements structDef)\<rparr>
         else structDef)"

definition publishAndApply ::
  "Collaborators \<Rightarrow> FshDefinition \<Rightarrow> StructureDefinition \<Rightarrow> ExportState \<Rightarrow> ref \<times> ExportState" where
  "publishAndApply env d structDef st =
     (let (r, st) = pushStructDef structDef st;
          (d, st) = preprocessStructureDefinition d (sd_type structDef = ''Extension'') st;
          (d, st) = setRules env r d st;
          st = updSd r (cleanResource env) st;
          st = updSd r (\<lambda>sd. sd\<lparr>sd_inProgress := False\<rparr>) st
      in (r, st))"

definition selfLogical :: FshStructure where
  "selfLogical = fshStructure ''C'' ''c'' (Some ''C'') []"

definition otherProfile :: FshStructure where
  "otherProfile = fshStructure ''D'' ''y'' (Some ''B'') []"

definition otherArtifact :: StructureDefinition where
  "otherArtifact =
     childArtifact\<lparr>sd_id := ''y'', sd_name := ''D'',
       sd_url := ''http://example.org/StructureDefinition/y''\<rparr>"

definition declared :: "FSHTank \<Rightarrow> Type \<Rightarrow> FshDefinition list" where
  "declared tnk t =
     (case t of
        Type.Profile \<Rightarrow> map Profile (concat (map doc_profiles (docs tnk)))
      | Type.Extension \<Rightarrow> map Extension (concat (map doc_extensions (docs tnk)))
      | Type.Logical \<Rightarrow> map Logical (concat (map doc_logicals (docs tnk)))
      | Type.Resource \<Rightarrow> map Resource (concat (map doc_resources (docs tnk)))
      | _ \<Rightarrow> [])"

definition declaredInstances :: "FSHTank \<Rightarrow> FshInstance list" where
  "declaredInstances tnk = concat (map doc_instances (docs tnk))"

definition resolveStructure ::
  "Common \<Rightarrow> FSHTank \<Rightarrow> string \<Rightarrow> string option \<Rightarrow> Type \<Rightarrow> FshDefinition option" where
  "resolveStructure c tnk base ver t =
     (case find (matchesIdentifier c tnk base ver) (declared tnk t) of
        Some d \<Rightarrow> Some d
      | None \<Rightarrow> map_option Instance (find (isDefinitionOfKind c tnk base ver t) (declaredInstances tnk)))"

definition resolveKind ::
  "Common \<Rightarrow> FSHTank \<Rightarrow> string \<Rightarrow> string option \<Rightarrow> Type \<Rightarrow> FshDefinition option" where
  "resolveKind c tnk base ver t =
     (if t \<in> {Type.Profile, Type.Extension, Type.Logical, Type.Resource}
      then resolveStructure c tnk base ver t
      else fishType c tnk base ver t)"

definition withVersion :: "string \<Rightarrow> string option \<Rightarrow> string" where
  "withVersion base ver = (case ver of None \<Rightarrow> base | Some v \<Rightarrow> base @ ''|'' @ v)"

definition versionTank :: FSHTank where
  "versionTank =
     tankOf (emptyDocument
       \<lparr>doc_profiles := [fshStructure ''P'' ''p'' (Some ''B'') []],
        doc_extensions := [fshStructure ''P'' ''p-ext'' None [], fshStructure ''E'' ''e'' None []],
        doc_instances :=
          [\<lparr>name = ''Q'', id' = ''q'', title = None, description = None,
            rules = [AssignmentRule ''derivation'' (CodeValue (FshCode ''constraint'' None)) False False,
                     AssignmentRule ''type'' (StringValue ''Extension'') False False],
            instanceOf = ''StructureDefinition'', usage = ''Definition''\<rparr>]\<rparr>)"

fun notOnArtifact :: "Rule \<Rightarrow> bool" where
  "notOnArtifact (CaretValueRule p _ _ _) = (p \<noteq> [])"
| "notOnArtifact _ = True"

definition keeps :: "ref \<Rightarrow> ExportState \<Rightarrow> ExportState \<Rightarrow> bool" where
  "keeps r st st' = (header (theSd st' r) = header (theSd st r))"

definition overridingCollaborators :: Collaborators where
  "overridingCollaborators =
     exampleCollaborators
       \<lparr>sd_setInstancePropertyByPath :=
          (\<lambda>caretPath v sd.
             (case v of
                StringValue s \<Rightarrow>
                  if caretPath = ''baseDefinition'' then sd\<lparr>sd_baseDefinition := Some s\<rparr> else sd
              | CodeValue cv \<Rightarrow>
                  if caretPath = ''derivation'' then sd\<lparr>sd_derivation := Some (code cv)\<rparr> else sd
              | _ \<Rightarrow> sd,
              None))\<rparr>"

definition caretProfile :: FshStructure where
  "caretProfile =
     fshStructure ''C'' ''x'' (Some ''B'')
       [CaretValueRule [] ''baseDefinition'' (StringValue ''http://elsewhere.org/Other'') False,
        CaretValueRule [] ''derivation'' (CodeValue (FshCode ''specialization'' None)) False]"

definition caretState :: ExportState where
  "caretState = busyState\<lparr>tank := tankOf (emptyDocument\<lparr>doc_profiles := [caretProfile]\<rparr>)\<rparr>"

definition logicalState :: ExportState where
  "logicalState =
     \<lparr>tank = tankOf (emptyDocument\<lparr>doc_logicals := [logicalModel]\<rparr>),
      pkg = \<lparr>profiles = [], extensions = [], logicals = [0]\<rparr>,
      heap = [tinyDefinition ''B'' ''b'' ''logical'' ''b'' False],
      deferredRules = [], logged = []\<rparr>"

section \<open>Symbol resolver: resolution order and metadata\<close>

lemma find_map_wrap: "find P (map f xs) = map_option f (find (\<lambda>x. P (f x)) xs)"
  by (induction xs) auto

lemma entity_simps [simp]:
  "name (FshEntity.truncate s) = name s"
  "id' (FshEntity.truncate s) = id' s"
  "rules (FshEntity.truncate s) = rules s"
  "title (FshEntity.truncate s) = title s"
  "description (FshEntity.truncate s) = description s"
  by (simp_all add: FshEntity.truncate_def)

lemma fishTypes_firstMatch: "fishTypes c tnk base ver ts = firstMatch (fishType c tnk base ver) ts"
  by (induction ts) (auto simp: firstMatch_def split: option.splits)

lemma isDefinitionOfKind_fun:
  "isDefinitionOfKind c tnk base ver t =
     (\<lambda>i. instanceOf i = ''StructureDefinition'' \<and> usage i = ''Definition''
      \<and> matchesIdentifier c tnk base ver (Instance i) \<and> declaresKind t (rules i))"
  by (rule ext) (simp add: isDefinitionOfKind_def)

lemma case_map_option_Some:
  "(case map_option f x of None \<Rightarrow> a | Some y \<Rightarrow> Some y) = (case x of None \<Rightarrow> a | Some y \<Rightarrow> Some (f y))"
  by (cases x) auto

lemma assignUrl_stringUrlOf:
  "assignUrl meta r = (case stringUrlOf r of None \<Rightarrow> meta | Some u \<Rightarrow> meta\<lparr>m_url := Some u\<rparr>)"
  by (cases "(meta, r)" rule: assignUrl.cases) auto

lemma lastAssignedUrl_Cons:
  "lastAssignedUrl (r # rs) =
     (case lastAssignedUrl rs of Some u \<Rightarrow> Some u | None \<Rightarrow> stringUrlOf r)"
  by (auto simp: lastAssignedUrl_def split: option.splits list.splits)

lemma foldl_assignUrl:
  "foldl assignUrl meta rs =
     meta\<lparr>m_url := (case lastAssignedUrl rs of None \<Rightarrow> m_url meta | Some u \<Rightarrow> Some u)\<rparr>"
proof (induction rs arbitrary: meta)
  case Nil
  then show ?case by (simp add: lastAssignedUrl_def)
next
  case (Cons r rs)
  then show ?case
    by (simp add: assignUrl_stringUrlOf lastAssignedUrl_Cons split: option.splits)
qed

lemma lastAssignedUrl_append:
  "lastAssignedUrl (rs @ [AssignmentRule ''url'' (StringValue u) exactly isInst]) = Some u"
  by (induction rs) (simp_all add: lastAssignedUrl_Cons, simp add: lastAssignedUrl_def)

text \<open>
  Claim C10. When the query resolves to a declared Instance, the metadata returned has as
  url the value of the last AssignmentRule at path \<^verbatim>\<open>url\<close> whose value is a string (so a
  later assignment of the url overrides an earlier one), and as instanceUsage the
  instance's usage. The projection is a function of the tank as it is when asked: nothing
  is remembered from an earlier query.
\<close>

theorem fishForMetadata_Instance:
  "fish c tnk item types = Some (Instance i) \<Longrightarrow>
     fishForMetadata c tnk item types =
       Some \<lparr>m_id = id' i, m_name = name i, m_url = lastAssignedUrl (rules i), m_parent = None,
              m_resourceType = None, m_sdType = None, m_canBeTarget = None, m_canBind = None,
              m_instanceUsage = Some (usage i)\<rparr>
     \<and> (\<forall>u exactly isInst.
          lastAssignedUrl (rules i @ [AssignmentRule ''url'' (StringValue u) exactly isInst]) = Some u)"
  by (simp add: fishForMetadata_def foldl_assignUrl lastAssignedUrl_append split: option.splits)


theorem fishForMetadata_Instance_witness:
  "fish exampleCommon instanceTank ''MyVS'' [] = Some (Instance exampleInstance)
   \<and> map_option m_url (fishForMetadata exampleCommon instanceTank ''MyVS'' []) = Some (Some ''http://example.org/b'')
   \<and> map_option m_instanceUsage (fishForMetadata exampleCommon instanceTank ''MyVS'' []) = Some (Some ''Definition'')"
proof -
  have f: "fish exampleCommon instanceTank ''MyVS'' [] = Some (Instance exampleInstance)"
    by code_simp
  have u: "lastAssignedUrl (rules exampleInstance) = Some ''http://example.org/b''"
    by code_simp
  show ?thesis
    using fishForMetadata_Instance [OF f] f u by (simp add: exampleInstance_def)
qed

lemma frame_refl [simp]: "frame st st"
  by (simp add: frame_def)

lemma frame_trans: "frame a b \<Longrightarrow> frame b c \<Longrightarrow> frame a c"
  by (simp add: frame_def)

lemma frame_foldl:
  assumes "\<And>s x. frame s (f s x)"
  shows "frame st (foldl f st xs)"
proof (induction xs arbitrary: st)
  case Nil
  show ?case by simp
next
  case (Cons x xs)
  show ?case using assms Cons frame_trans by fastforce
qed

lemma frame_logger [simp]:
  "frame st (logger_error m st)" "frame st (logger_warn m st)" "frame st (logger_info m st)"
  by (simp_all add: frame_def logger_error_def logger_warn_def logger_info_def)

lemma frame_logThrown [simp]: "frame st (logThrown err st)"
  by (simp add: logThrown_def split: option.splits)

lemma frame_updSd [simp]: "frame st (updSd r f st)"
  by (simp add: frame_def updSd_def)

lemma frame_setElements [simp]: "frame st (setElements r els st)"
  by (simp add: setElements_def)

lemma frame_updElement [simp]: "frame st (updElement r e f st)"
  by (simp add: updElement_def)

lemma frame_step: "frame a b \<Longrightarrow> frame b (f b) \<Longrightarrow> frame a (f b)"
  by (rule frame_trans)

lemma frame_after [simp]:
  "frame a b \<Longrightarrow> frame a (logger_error m b)"
  "frame a b \<Longrightarrow> frame a (logger_warn m b)"
  "frame a b \<Longrightarrow> frame a (logThrown err b)"
  "frame a b \<Longrightarrow> frame a (updSd r f b)"
  "frame a b \<Longrightarrow> frame a (setElements r els b)"
  "frame a b \<Longrightarrow> frame a (updElement r e g b)"
  by (auto intro: frame_trans)

lemma frame_tryElementOp [simp]: "frame st (tryElementOp r e op st)"
  by (simp add: tryElementOp_def split_beta)

lemma frame_tryElementOp_after [simp]: "frame a b \<Longrightarrow> frame a (tryElementOp r e op b)"
  using frame_tryElementOp frame_trans by blast

lemma frame_applyAddElementRule [simp]: "frame st (applyAddElementRule env r st rule)"
  by (simp add: applyAddElementRule_def split_beta)

lemma frame_applyAddElementRule_after [simp]: "frame a b \<Longrightarrow> frame a (applyAddElementRule env r b rule)"
  using frame_applyAddElementRule frame_trans by blast

lemma frame_deferred [simp]: "frame st (st\<lparr>deferredRules := x\<rparr>)" "frame st (st\<lparr>tank := t\<rparr>)" "frame st (st\<lparr>logged := l\<rparr>)"
  by (simp_all add: frame_def)

lemma frame_applyCaretValueRule [simp]:
  "frame st (applyCaretValueRule env d r element p caretPath v isInst st)"
  by (simp add: applyCaretValueRule_def split_beta split: sum.splits option.splits)

lemma frame_applyCaretValueRule_after [simp]: "frame a b \<Longrightarrow> frame a (applyCaretValueRule env d r element p caretPath v isInst b)"
  using frame_applyCaretValueRule frame_trans by blast

lemma frame_assignReplaced [simp]: "frame st (assignReplaced env r e v exactly st)"
  by (simp add: assignReplaced_def split: sum.splits)

lemma frame_assignReplaced_after [simp]: "frame a b \<Longrightarrow> frame a (assignReplaced env r e v exactly b)"
  using frame_assignReplaced frame_trans by blast

lemma frame_addPlainSlice [simp]: "frame st (addPlainSlice p r e st item)"
  by (auto simp: addPlainSlice_def Let_def split: sum.splits)

lemma frame_addPlainSlice_after [simp]: "frame a b \<Longrightarrow> frame a (addPlainSlice p r e b item)"
  using frame_addPlainSlice frame_trans by blast

lemma frame_standaloneExtensionItem [simp]:
  "frame st (fst (standaloneExtensionItem env r e item ty st))"
  by (auto simp: standaloneExtensionItem_def Let_def
      split: sum.splits option.splits list.splits Error.splits)

lemma frame_standaloneExtensionItem_after [simp]: "frame a b \<Longrightarrow> frame a (fst (standaloneExtensionItem env r e item ty b))"
  using frame_standaloneExtensionItem frame_trans by blast

lemma frame_inlineExtensionItem [simp]:
  "frame st (fst (inlineExtensionItem env d p r e item st))"
  by (auto simp: inlineExtensionItem_def Let_def split_beta
      split: sum.splits option.splits)

lemma frame_inlineExtensionItem_after [simp]: "frame a b \<Longrightarrow> frame a (fst (inlineExtensionItem env d p r e item b))"
  using frame_inlineExtensionItem frame_trans by blast

lemma frame_handleExtensionItems [simp]:
  "frame st (fst (handleExtensionItems env d p r e items st))"
proof (induction items arbitrary: st)
  case Nil
  show ?case by simp
next
  case (Cons item items)
  define step where
    "step = (case item_type item of
               None \<Rightarrow> inlineExtensionItem env d p r e item st
             | Some ty \<Rightarrow>
                 if ty = [] then inlineExtensionItem env d p r e item st
                 else standaloneExtensionItem env r e item ty st)"
  have f: "frame st (fst step)"
    unfolding step_def by (simp split: option.splits)
  have "handleExtensionItems env d p r e (item # items) st =
          (case step of
             (st', Some err) \<Rightarrow> (st', Some err)
           | (st', None) \<Rightarrow> handleExtensionItems env d p r e items st')"
    by (simp add: step_def)
  then show ?case
    using f Cons [of "fst step"]
    by (cases step) (auto split: option.splits intro: frame_trans)
qed

lemma frame_handleExtensionItems_after [simp]: "frame a b \<Longrightarrow> frame a (fst (handleExtensionItems env d p r e items b))"
  using frame_handleExtensionItems frame_trans by blast

lemma frame_handleExtensionContainsRule [simp]:
  "frame st (fst (handleExtensionContainsRule env d p items r e st))"
  using frame_handleExtensionItems frame_trans frame_updElement
  by (fastforce simp: handleExtensionContainsRule_def Let_def)

lemma frame_handleExtensionContainsRule_after [simp]: "frame a b \<Longrightarrow> frame a (fst (handleExtensionContainsRule env d p items r e b))"
  using frame_handleExtensionContainsRule frame_trans by blast

lemma frame_applyToElement [simp]: "frame st (applyToElement env d r e rule st)"
proof (cases rule)
  case (ContainsRule p items)
  have "frame st (fst (handleExtensionContainsRule env d p items r e st))" by simp
  moreover have "frame st (foldl (addPlainSlice p r e) st items)"
    by (rule frame_foldl) simp
  ultimately show ?thesis
    using ContainsRule by (auto simp: applyToElement_def Let_def split_beta)
next
  case (ObeysRule p n)
  then show ?thesis
    by (auto simp: applyToElement_def Let_def split: option.splits FshDefinition.splits)
qed (auto simp: applyToElement_def Let_def split: option.splits list.splits)

lemma frame_applyToElement_after [simp]: "frame a b \<Longrightarrow> frame a (applyToElement env d r e rule b)"
  using frame_applyToElement frame_trans by blast

lemma frame_applySdRule [simp]: "frame st (applySdRule env d r st rule)"
  unfolding applySdRule_def Let_def split_beta
  by (cases rule) (auto split: option.splits)

lemma frame_applySdRule_after [simp]: "frame a b \<Longrightarrow> frame a (applySdRule env d r b rule)"
  using frame_applySdRule frame_trans by blast

lemma frame_setRules [simp]: "frame st (snd (setRules env r d st))"
proof -
  have a: "\<And>s D. frame s (foldl (applySdRule env D r) s xs)" for xs
    by (rule frame_foldl) simp
  have b: "\<And>s. frame s (foldl (applyAddElementRule env r) s xs)" for xs
    by (rule frame_foldl) simp
  show ?thesis
    unfolding setRules_def Let_def
    by (auto intro!: frame_trans [OF _ a] frame_trans [OF _ b])
qed

lemma frame_setRules_after [simp]: "frame a b \<Longrightarrow> frame a (snd (setRules env r d b))"
  using frame_setRules frame_trans by blast

lemma frame_preprocess [simp]: "frame st (snd (preprocessStructureDefinition d isExt st))"
  by (simp add: preprocessStructureDefinition_def split_beta frame_def Let_def)

lemma frame_preprocess_after [simp]: "frame a b \<Longrightarrow> frame a (snd (preprocessStructureDefinition d isExt b))"
  using frame_preprocess frame_trans by blast

lemma frame_checkDuplicateId [simp]: "frame st (checkDuplicateId r st)"
  by (simp add: checkDuplicateId_def frame_def)

lemma frame_checkDuplicateId_after [simp]: "frame a b \<Longrightarrow> frame a (checkDuplicateId r b)"
  using frame_checkDuplicateId frame_trans by blast

lemma pushStructDef_facts:
  "pushStructDef sd st = (r, st') \<Longrightarrow>
     r = length (heap st) \<and> length (heap st') = Suc r \<and> r \<in> set (published_refs (pkg st'))
     \<and> theSd st' r = sd \<and> logged st' = logged st \<and> tank st' = tank st"
  by (auto simp: pushStructDef_def Let_def published_refs_def theSd_def split: if_splits)

lemma frame_published:
  "frame a b \<Longrightarrow> published_refs (pkg b) = published_refs (pkg a) \<and> length (heap b) = length (heap a)"
  by (simp add: frame_def)

lemma theSd_updSd: "r < length (heap st) \<Longrightarrow> theSd (updSd r f st) r = f (theSd st r)"
  by (simp add: theSd_def updSd_def)

lemma theSd_checkDuplicateId [simp]: "theSd (checkDuplicateId r st) p = theSd st p"
  by (simp add: checkDuplicateId_def theSd_def)

lemma exportStructDef_body_Some:
  assumes "exportStructDef_body this_export env d st = Some (Inr (Some r), st')"
  shows "\<exists>st2. st' = checkDuplicateId r st2 \<and> r \<in> set (published_refs (pkg st2))
           \<and> r < length (heap st2) \<and> \<not> sd_inProgress (theSd st2 r)"
proof -
  from assms obtain sd0 d1 s1 where
    g: "getStructureDefinition this_export env d st = Some (Inr (sd0, d1), s1)"
    by (auto simp: exportStructDef_body_def split: if_splits option.splits sum.splits)
  define s1w where "s1w = (if sd_inProgress sd0 then s1\<lparr>logged := logged s1 @ [circularWarning d1]\<rparr> else s1)"
  define sdp where "sdp = (if isLogical d1 then
       (sd0\<lparr>sd_inProgress := True\<rparr>)\<lparr>sd_elements := resetRootIdAndPath env (id' (entity d1)) (sd_elements (sd0\<lparr>sd_inProgress := True\<rparr>))\<rparr>
     else sd0\<lparr>sd_inProgress := True\<rparr>)"
  from assms g obtain sk where m: "setMetadata env (tank s1w) sdp d1 = Inr sk"
    by (auto simp: exportStructDef_body_def Let_def s1w_def sdp_def split: if_splits sum.splits)
  obtain r0 s2 where p: "pushStructDef sk s1w = (r0, s2)" by fastforce
  obtain d2 s3 where q: "preprocessStructureDefinition d1 (sd_type sk = ''Extension'') s2 = (d2, s3)" by fastforce
  obtain d3 s4 where t: "setRules env r0 d2 s3 = (d3, s4)" by fastforce
  define s5 where "s5 = updSd r0 (\<lambda>sd. sd\<lparr>sd_inProgress := False\<rparr>) (updSd r0 (cleanResource env) s4)"
  from assms g m p q t have res: "r = r0 \<and> st' = checkDuplicateId r0 s5"
    by (auto simp: exportStructDef_body_def Let_def s1w_def sdp_def s5_def split: if_splits)
  have f1: "frame s2 s3" using q frame_preprocess [of s2 d1 "sd_type sk = ''Extension''"] by simp
  have f2: "frame s3 s4" using t frame_setRules [of s3 env r0 d2] by simp
  have f3: "frame s4 s5" by (simp add: s5_def)
  have f: "frame s2 s5" using f1 f2 f3 frame_trans by blast
  from pushStructDef_facts [OF p] have pf: "r0 \<in> set (published_refs (pkg s2))" "r0 < length (heap s2)"
    by auto
  have "r0 \<in> set (published_refs (pkg s5))" "r0 < length (heap s5)"
    using f pf frame_published by auto
  moreover have "\<not> sd_inProgress (theSd s5 r0)"
  proof -
    have "r0 < length (heap (updSd r0 (cleanResource env) s4))"
      using f1 f2 pf by (simp add: frame_def updSd_def)
    then show ?thesis by (simp add: s5_def theSd_updSd)
  qed
  ultimately show ?thesis using res by blast
qed

lemma replaceFirst_same [simp]: "replaceFirst x x xs = xs"
  by (induction xs) auto

lemma replaceInDocs_same:
  "(\<And>doc. put (get doc) doc = doc) \<Longrightarrow> replaceInDocs get put x x ds = ds"
  by (induction ds) auto

lemma replaceDefinition_same [simp]: "replaceDefinition d d t = t"
  by (cases d) (simp_all add: replaceInDocs_same)

lemma exportStructDef_is_body:
  obtains this_export where
    "exportStructDef depth env d st = exportStructDef_body this_export env d st"
  by (cases depth) simp_all

lemma exportStructDef_Some:
  assumes "exportStructDef depth env d st = Some (Inr (Some r), st')"
  shows "\<exists>st2. st' = checkDuplicateId r st2 \<and> r \<in> set (published_refs (pkg st2))
           \<and> r < length (heap st2) \<and> \<not> sd_inProgress (theSd st2 r)"
  using assms exportStructDef_body_Some by (cases depth) auto

text \<open>
  Claim C7. (as amended) An entity whose declared (non-empty) parent is its own name or
  its own id, and under whose name no structure definition is in the package yet, does not
  compile: \<^verbatim>\<open>exportStructDef\<close> returns, at any depth, with ParentDeclaredAsNameError (parent
  equal to the name) or ParentDeclaredAsIdError (parent equal to the id only), and the state
  it leaves is the state it found: no structure definition was created or pushed into any
  partition of the package, and nothing was logged.
\<close>

theorem exportStructDef_self_parent:
  assumes "\<not> alreadyExported d st"
    and "defParent d = Some p" and "p \<noteq> []"
    and "p = name (entity d) \<or> p = id' (entity d)"
  shows "\<exists>u. exportStructDef depth env d st =
           Some (Inl (if p = name (entity d)
                      then ParentDeclaredAsNameError (constructorName d) (name (entity d)) u
                      else ParentDeclaredAsIdError (constructorName d) (name (entity d))
                             (id' (entity d)) u),
                 st)"
proof -
  have ne: "\<not> isEmpty (defParent d)"
    using assms(2,3) by (simp add: isEmpty_def)
  have st: "st\<lparr>tank := tank st\<rparr> = st" by simp
  show ?thesis
  proof (cases "p = name (entity d)")
    case True
    then have "getStructureDefinition this_export env d st =
        Some (Inl (ParentDeclaredAsNameError (constructorName d) (name (entity d))
                (case MasterFisher_fishForMetadata env st (name (entity d))
                        [if isExtension d then Type.Extension
                         else if isLogical d then Type.Logical else Type.Resource] of
                   None \<Rightarrow> None | Some result \<Rightarrow> m_url result)), st)" for this_export
      using ne assms(2) by (simp add: getStructureDefinition_def Let_def)
    then show ?thesis
      using True assms(1) by (cases depth) (simp_all add: exportStructDef_body_def)
  next
    case False
    then have i: "p = id' (entity d)" using assms(4) by simp
    have "getStructureDefinition this_export env d st =
        Some (Inl (ParentDeclaredAsIdError (constructorName d) (name (entity d)) (id' (entity d))
                (case MasterFisher_fishForMetadata env st (id' (entity d))
                        [if isExtension d then Type.Extension
                         else if isLogical d then Type.Logical else Type.Resource] of
                   None \<Rightarrow> None | Some result \<Rightarrow> m_url result)), st)" for this_export
      using ne assms(2) False i by (simp add: getStructureDefinition_def Let_def)
    then show ?thesis
      using False assms(1) by (cases depth) (simp_all add: exportStructDef_body_def)
  qed
qed

lemma alreadyExported_published:
  assumes "r \<in> set (published_refs (pkg st))" and "r < length (heap st)"
    and "sd_name (theSd st r) = name (entity d)"
  shows "alreadyExported d st"
proof -
  have "\<And>rs. r \<in> set rs \<Longrightarrow> list_ex (\<lambda>sd. sd_name sd = name (entity d)) (artifacts st rs)"
    using assms(2,3)
    by (auto simp: artifacts_def list_ex_iff map_filter_def deref_def theSd_def)
  then show ?thesis
    using assms(1) by (auto simp: alreadyExported_def published_refs_def)
qed

lemma published_checkDuplicateId [simp]:
  "pkg (checkDuplicateId r st) = pkg st" "heap (checkDuplicateId r st) = heap st"
  by (simp_all add: checkDuplicateId_def)

text \<open>
  Claim C1. (as amended) Once \<^verbatim>\<open>exportStructDef\<close> has returned a structure definition for
  an entity, and that structure definition still bears the entity's name, a second call
  for the entity (at any depth, and also after the first call has changed the entity's
  parent or rules) changes nothing and returns no value (\<^verbatim>\<open>undefined\<close>); the structure
  definition of the first call is still in its partition of the package.
\<close>

theorem exportStructDef_twice:
  assumes "exportStructDef depth env d st = Some (Inr (Some r), st1)"
    and "sd_name (theSd st1 r) = name (entity d)"
    and "name (entity d') = name (entity d)"
  shows "exportStructDef depth' env d' st1 = Some (Inr None, st1)
         \<and> r \<in> set (published_refs (pkg st1)) \<and> r < length (heap st1)"
proof -
  from assms(1) obtain st2 where
    s: "st1 = checkDuplicateId r st2" "r \<in> set (published_refs (pkg st2))" "r < length (heap st2)"
    using exportStructDef_Some by blast
  have p: "r \<in> set (published_refs (pkg st1))" "r < length (heap st1)"
    using s by simp_all
  then have "alreadyExported d' st1"
    using assms(2,3) alreadyExported_published by simp
  then have "exportStructDef depth' env d' st1 = Some (Inr None, st1)"
    by (cases depth') (simp_all add: exportStructDef_body_def)
  then show ?thesis using p by simp
qed

lemmas model_defs =
  getAllProfiles_def getAllExtensions_def getAllLogicals_def getAllResources_def getAllInstances_def
  getAllStructureDefinitions_def getAllValueSets_def getAllCodeSystems_def getAllInvariants_def getAllRuleSets_def
  getAllMappings_def resolveAlias_def splitVersion_def fishType_def fish_def
  isDigit_def matchExtensionCaretPath_def lastValueRule_def hasLogicalCharacteristic_def HL7_URL_def
  startsWith_def sdTypeOfUrl_def structureMetadata_def fishForMetadata_def deref_def
  artifacts_def logger_error_def logger_warn_def logger_info_def splitOnPathPeriods_def
  matchesArtifact_def published_def MasterFisher_fishForFHIR_def artifactMetadata_def MasterFisher_fishForMetadata_def
  setId_def setName_def findElement_def sliceIt_def isSliceOf_def
  getSlices_def addSlice_def applyConstraint_def isEmpty_def truthy_def
  showOpt_def theSd_def updSd_def elementsOf_def setElements_def
  updElement_def logThrown_def tryElementOp_def UNINHERITED_EXTENSIONS_def stripUninherited_def
  setOnRoot_def setMetadata_def joinParts_def mapGet_def bothError_def
  inferBranch_def inferPathPart_def inferRule_def inferredCardRules_def preprocessRules_def
  preprocessStructureDefinition_def validIndex_def standaloneExtensionItem_def inlineExtensionItem_def handleExtensionContainsRule_def
  applyAddElementRule_def applyCaretValueRule_def assignReplaced_def addPlainSlice_def applyToElement_def
  applySdRule_def setRules_def fishForFHIR_def getStructureDefinition_def alreadyExported_def
  pushStructDef_def sameIdElsewhere_def hasDuplicateId_def duplicateIdError_def checkDuplicateId_def
  circularWarning_def exportStructDef_body_def

lemma let_weak_cong: "a = b \<Longrightarrow> Let a t = Let b t"
  by simp

lemmas example_defs = exampleCollaborators_def childProfile_def busyState_def
  tinyDefinition_def fshStructure_def tankOf_def emptyDocument_def exampleConfig_def exampleCommon_def
  blankElement_def startState_def childArtifact_def afterChild_def cycA_def cycB_def cycleState_def
  selfProfile_def logicalModel_def examplePathOf_def exampleIdOk_def

lemma child_run:
  "exportStructDef 0 exampleCollaborators (Profile childProfile) busyState
     = Some (Inr (Some 2), afterChild)"
  by (simp add: model_defs example_defs Let_def cong: let_weak_cong)

lemma setOnRoot_fields:
  "setOnRoot f sd = Inr sd' \<Longrightarrow>
     sd_url sd' = sd_url sd \<and> sd_baseDefinition sd' = sd_baseDefinition sd
     \<and> sd_derivation sd' = sd_derivation sd \<and> sd_type sd' = sd_type sd
     \<and> sd_kind sd' = sd_kind sd \<and> sd_context sd' = sd_context sd"
  by (auto simp: setOnRoot_def split: list.splits)

lemma setMetadata_fields:
  "setMetadata env tnk structDef fshDefinition = Inr sd \<Longrightarrow>
     sd_baseDefinition sd = Some (sd_url structDef)
     \<and> sd_derivation sd = Some (if isLogical fshDefinition then ''specialization'' else ''constraint'')
     \<and> (isLogical fshDefinition \<longrightarrow> sd_type sd = id' (entity fshDefinition))"
  unfolding setMetadata_def Let_def
  by (auto split: if_splits sum.splits option.splits dest!: setOnRoot_fields simp: setId_def setName_def)

lemma setMetadata_returns:
  "\<not> isExtension fshDefinition \<Longrightarrow> \<exists>sd. setMetadata env tnk structDef fshDefinition = Inr sd"
  unfolding setMetadata_def Let_def
  by (auto split: if_splits sum.splits option.splits simp: setId_def setName_def)

lemma afterChild_facts:
  "sd_name (theSd afterChild 2) = ''C''"
  "name childProfile = ''C''"
  "published_refs (pkg afterChild) = [0, 2, 1]"
  "length (heap afterChild) = 3"
  "profiles (pkg afterChild) = [0, 2]"
  "logged afterChild = [circularWarning (Profile childProfile), duplicateIdError ''x'']"
  by (simp_all add: afterChild_def busyState_def childArtifact_def tinyDefinition_def theSd_def
      childProfile_def fshStructure_def published_refs_def)

lemma afterChild_already: "alreadyExported (Profile childProfile) afterChild"
  by (rule alreadyExported_published [where r = 2]) (simp_all add: afterChild_facts)

theorem exportStructDef_twice_counterexample:
  "exportStructDef 0 exampleCollaborators (Profile childProfile) busyState
     = Some (Inr (Some 2), afterChild)
   \<and> exportStructDef 0 exampleCollaborators (Profile childProfile) afterChild
     = Some (Inr None, afterChild)
   \<and> exportStructDef 0 exampleCollaborators (Profile childProfile) afterChild
     \<noteq> Some (Inr (Some 2), afterChild)"
  using child_run afterChild_already by (simp add: exportStructDef_body_def)

theorem exportStructDef_twice_witness:
  "exportStructDef 0 exampleCollaborators (Profile childProfile) busyState
     = Some (Inr (Some 2), afterChild)
   \<and> sd_name (theSd afterChild 2) = name (entity (Profile childProfile))
   \<and> exportStructDef 1 exampleCollaborators (Profile childProfile) afterChild
     = Some (Inr None, afterChild)
   \<and> 2 \<in> set (published_refs (pkg afterChild))"
proof -
  have n: "sd_name (theSd afterChild 2) = name (entity (Profile childProfile))"
    by (simp add: afterChild_facts)
  show ?thesis
    using exportStructDef_twice [OF child_run n refl, of 1] child_run n by simp
qed

theorem duplicate_id_check_counterexample:
  "exportStructDef 0 exampleCollaborators (Profile childProfile) busyState
     = Some (Inr (Some 2), afterChild)
   \<and> profiles (pkg afterChild) = [0, 2]
   \<and> \<not> sameIdElsewhere afterChild 2 (profiles (pkg afterChild))
   \<and> logged afterChild = logged busyState @ [circularWarning (Profile childProfile), duplicateIdError ''x'']"
proof -
  have "\<not> sameIdElsewhere afterChild 2 (profiles (pkg afterChild))"
    by (simp add: sameIdElsewhere_def afterChild_def busyState_def childArtifact_def
        tinyDefinition_def theSd_def deref_def)
  then show ?thesis
    using child_run by (simp add: afterChild_facts busyState_def)
qed

theorem exportStructDef_self_parent_witness:
  "\<not> alreadyExported (Profile selfProfile) (startState (tankOf emptyDocument))
   \<and> defParent (Profile selfProfile) = Some ''S''
   \<and> (\<exists>u. exportStructDef 3 exampleCollaborators (Profile selfProfile)
              (startState (tankOf emptyDocument))
            = Some (Inl (ParentDeclaredAsNameError ''Profile'' ''S'' u),
                    startState (tankOf emptyDocument)))"
proof -
  have a: "\<not> alreadyExported (Profile selfProfile) (startState (tankOf emptyDocument))"
    by (simp add: alreadyExported_def startState_def artifacts_def)
  have p: "defParent (Profile selfProfile) = Some ''S''"
    by (simp add: selfProfile_def fshStructure_def)
  have n: "name (entity (Profile selfProfile)) = ''S''" "constructorName (Profile selfProfile) = ''Profile''"
    by (simp_all add: selfProfile_def fshStructure_def)
  have "\<exists>u. exportStructDef 3 exampleCollaborators (Profile selfProfile)
        (startState (tankOf emptyDocument))
      = Some (Inl (ParentDeclaredAsNameError ''Profile'' ''S'' u), startState (tankOf emptyDocument))"
    using exportStructDef_self_parent [OF a p, of 3 exampleCollaborators] n by auto
  then show ?thesis using a p by simp
qed

lemmas obeys_defs = badInvariant_def goodInvariant_def obeysState_def constraintOf_def

lemma updElement_facts:
  assumes "r < length (heap st)" and "e < length (elementsOf st r)"
  shows "elementsOf (updElement r e f st) r = (elementsOf st r)[e := f (elementsOf st r ! e)]"
    and "logged (updElement r e f st) = logged st"
    and "sd_url (theSd (updElement r e f st) r) = sd_url (theSd st r)"
    and "sd_name (theSd (updElement r e f st) r) = sd_name (theSd st r)"
    and "tank (updElement r e f st) = tank st"
  using assms
  by (simp_all add: updElement_def setElements_def updSd_def elementsOf_def theSd_def)

lemma logger_fields [simp]:
  "heap (logger_error m st) = heap st" "pkg (logger_error m st) = pkg st"
  "tank (logger_error m st) = tank st" "logged (logger_error m st) = logged st @ [(ERROR, m)]"
  "heap (logger_warn m st) = heap st" "pkg (logger_warn m st) = pkg st"
  "tank (logger_warn m st) = tank st" "logged (logger_warn m st) = logged st @ [(WARN, m)]"
  "elementsOf (logger_error m st) r = elementsOf st r"
  "elementsOf (logger_warn m st) r = elementsOf st r"
  "theSd (logger_error m st) r = theSd st r"
  "theSd (logger_warn m st) r = theSd st r"
  by (simp_all add: logger_error_def logger_warn_def elementsOf_def theSd_def)

text \<open>
  Claim C4. (as amended) An ObeysRule whose invariant the tank declares attaches the
  invariant's constraint (key, human description, expression, severity) to the element,
  with the structure definition's own url as its source, whether the invariant's name is a
  well-formed id or not. When it is not, an InvalidFHIRIdError is logged as well, after
  the constraint has been attached; nothing else is logged.
\<close>

theorem obeys_attaches_constraint:
  assumes "r < length (heap st)" and "e < length (elementsOf st r)"
    and "fish (common env) (tank st) invariantName [Type.Invariant] = Some (Invariant invariant)"
  shows "elementsOf (applyToElement env d r e (ObeysRule p invariantName) st) r
           = (elementsOf st r)
               [e := (elementsOf st r ! e)
                  \<lparr>el_constraint := el_constraint (elementsOf st r ! e)
                     @ [constraintOf invariant (sd_url (theSd st r))]\<rparr>]
         \<and> logged (applyToElement env d r e (ObeysRule p invariantName) st)
           = logged st @ (if idRegex_test env (name invariant) then []
                          else [(ERROR, ErrorMessage (InvalidFHIRIdError (name invariant)))])"
  using assms
  by (simp add: applyToElement_def Let_def updElement_facts applyConstraint_def constraintOf_def)

lemma obeys_fish:
  "fish (common exampleCollaborators) (tank obeysState) ''bad_id'' [Type.Invariant]
     = Some (Invariant badInvariant)"
  "fish (common exampleCollaborators) (tank obeysState) ''inv-1'' [Type.Invariant]
     = Some (Invariant goodInvariant)"
  by (simp_all add: model_defs example_defs obeys_defs Let_def cong: let_weak_cong)

theorem obeys_attaches_constraint_counterexample:
  "\<not> idRegex_test exampleCollaborators (name badInvariant)
   \<and> el_constraint
       (elementsOf (applySdRule exampleCollaborators (Profile childProfile) 0 obeysState
                      (ObeysRule ''name'' ''bad_id'')) 0 ! 1)
     = [constraintOf badInvariant ''u:x'']"
  by (simp add: model_defs example_defs obeys_defs Let_def cong: let_weak_cong)

theorem obeys_attaches_constraint_witness:
  "fish (common exampleCollaborators) (tank obeysState) ''inv-1'' [Type.Invariant]
     = Some (Invariant goodInvariant)
   \<and> el_constraint (elementsOf (applyToElement exampleCollaborators (Profile childProfile) 0 1
                                  (ObeysRule ''name'' ''inv-1'') obeysState) 0 ! 1)
       = [constraintOf goodInvariant ''u:x'']
   \<and> logged (applyToElement exampleCollaborators (Profile childProfile) 0 1
                (ObeysRule ''name'' ''inv-1'') obeysState) = []
   \<and> logged (applyToElement exampleCollaborators (Profile childProfile) 0 1
                (ObeysRule ''name'' ''bad_id'') obeysState)
       = [(ERROR, ErrorMessage (InvalidFHIRIdError ''bad_id''))]"
proof -
  have r: "0 < length (heap obeysState)" "1 < length (elementsOf obeysState 0)"
    by (simp_all add: obeysState_def elementsOf_def theSd_def)
  have v: "elementsOf obeysState 0 ! 1 = blankElement ''P.name''"
    "sd_url (theSd obeysState 0) = ''u:x''" "logged obeysState = []"
    "idRegex_test exampleCollaborators (name goodInvariant)"
    "\<not> idRegex_test exampleCollaborators (name badInvariant)"
    "name badInvariant = ''bad_id''"
    by (simp_all add: obeysState_def elementsOf_def theSd_def tinyDefinition_def
        exampleCollaborators_def exampleIdOk_def goodInvariant_def badInvariant_def)
  have b: "el_constraint (blankElement ''P.name'') = []"
    by (simp add: blankElement_def)
  show ?thesis
    using obeys_attaches_constraint [OF r obeys_fish(2), of "Profile childProfile" "''name''"]
      obeys_attaches_constraint [OF r obeys_fish(1), of "Profile childProfile" "''name''"]
      obeys_fish(2) v b r
    by simp
qed

lemma setElements_facts:
  assumes "r < length (heap st)"
  shows "elementsOf (setElements r els st) r = els"
    and "sd_name (theSd (setElements r els st) r) = sd_name (theSd st r)"
    and "sd_url (theSd (setElements r els st) r) = sd_url (theSd st r)"
    and "length (heap (setElements r els st)) = length (heap st)"
    and "setElements r els' (setElements r els st) = setElements r els' st"
    and "updElement r i f (setElements r els st) = setElements r (els[i := f (els ! i)]) st"
  using assms
  by (simp_all add: updElement_def setElements_def updSd_def elementsOf_def theSd_def)

lemma setElements_fields [simp]:
  "logged (setElements r els st) = logged st" "tank (setElements r els st) = tank st"
  "pkg (setElements r els st) = pkg st"
  by (simp_all add: setElements_def updSd_def)

lemma updElement_as_setElements:
  "updElement r i f st = setElements r ((elementsOf st r)[i := f (elementsOf st r ! i)]) st"
  by (simp add: updElement_def)

lemma header_facts:
  "header a = header b \<Longrightarrow> matchesArtifact base ver a = matchesArtifact base ver b"
  "header a = header b \<Longrightarrow> artifactMetadata a = artifactMetadata b"
proof -
  assume h: "header a = header b"
  have "sd_name a = sd_name (header a)" "sd_id a = sd_id (header a)" "sd_url a = sd_url (header a)"
    "sd_version a = sd_version (header a)" "sd_baseDefinition a = sd_baseDefinition (header a)"
    "sd_type a = sd_type (header a)"
    "sd_name b = sd_name (header b)" "sd_id b = sd_id (header b)" "sd_url b = sd_url (header b)"
    "sd_version b = sd_version (header b)" "sd_baseDefinition b = sd_baseDefinition (header b)"
    "sd_type b = sd_type (header b)"
    by (simp_all add: header_def)
  then have e: "sd_name a = sd_name b" "sd_id a = sd_id b" "sd_url a = sd_url b"
    "sd_version a = sd_version b" "sd_baseDefinition a = sd_baseDefinition b" "sd_type a = sd_type b"
    using h by simp_all
  show "matchesArtifact base ver a = matchesArtifact base ver b"
    using e by (simp add: matchesArtifact_def)
  show "artifactMetadata a = artifactMetadata b"
    using e by (simp add: artifactMetadata_def)
qed

lemma find_headers:
  "map header xs = map header ys \<Longrightarrow>
     map_option artifactMetadata (find (matchesArtifact base ver) xs)
       = map_option artifactMetadata (find (matchesArtifact base ver) ys)
     \<and> (find (matchesArtifact base ver) xs = None) = (find (matchesArtifact base ver) ys = None)"
proof (induction xs arbitrary: ys)
  case Nil
  then show ?case by simp
next
  case (Cons x xs)
  then obtain y ys' where y: "ys = y # ys'" "header x = header y" "map header xs = map header ys'"
    by (cases ys) auto
  show ?case
    using Cons.IH [OF y(3)] header_facts(1) [OF y(2), of base ver] header_facts(2) [OF y(2)] y(1)
    by auto
qed

lemma artifacts_headers:
  "map header (artifacts (setElements r els st) rs) = map header (artifacts st rs)"
proof (induction rs)
  case Nil
  show ?case by (simp add: artifacts_def)
next
  case (Cons a rs)
  have "map_option header (deref (setElements r els st) a) = map_option header (deref st a)"
    by (cases "a = r") (simp_all add: deref_def setElements_def updSd_def header_def)
  then show ?case
    using Cons by (cases "deref st a"; cases "deref (setElements r els st) a")
      (simp_all add: artifacts_def map_filter_simps)
qed

lemma published_headers:
  "map header (published (setElements r els st) types) = map header (published st types)"
  by (simp add: published_def artifacts_headers)

lemma fishForFHIR_setElements:
  "map_option artifactMetadata (MasterFisher_fishForFHIR env (setElements r els st) item types)
      = map_option artifactMetadata (MasterFisher_fishForFHIR env st item types)"
proof (cases item)
  case None
  then show ?thesis by (simp add: MasterFisher_fishForFHIR_def)
next
  case (Some it0)
  define it where "it = (case resolveAlias (tank st) it0 of Some a \<Rightarrow> a | None \<Rightarrow> it0)"
  define P where "P = matchesArtifact (fst (splitVersion it)) (snd (splitVersion it))"
  define Z where "Z = find P (fhirDefs env)"
  have f: "map_option artifactMetadata (find P (published (setElements r els st) types))
             = map_option artifactMetadata (find P (published st types))"
    "(find P (published (setElements r els st) types) = None) = (find P (published st types) = None)"
    using find_headers [OF published_headers [of r els st types]] by (simp_all add: P_def)
  have "map_option artifactMetadata
          (case find P (published (setElements r els st) types) of Some sd \<Rightarrow> Some sd | None \<Rightarrow> Z)
      = map_option artifactMetadata
          (case find P (published st types) of Some sd \<Rightarrow> Some sd | None \<Rightarrow> Z)"
    using f
    by (cases "find P (published (setElements r els st) types)"; cases "find P (published st types)")
      auto
  then show ?thesis
    using Some unfolding MasterFisher_fishForFHIR_def Let_def split_beta it_def P_def Z_def
    by (simp cong: option.case_cong)
qed

lemma fishForMetadata_setElements [simp]:
  "MasterFisher_fishForMetadata env (setElements r els st) item types
     = MasterFisher_fishForMetadata env st item types"
  using fishForFHIR_setElements [of env r els st "Some item" types]
  by (simp add: MasterFisher_fishForMetadata_def split: option.splits)

lemma deref_logger:
  "deref (logger_warn m st) = deref st" "deref (logger_error m st) = deref st"
  by (rule ext, simp add: deref_def)+

lemma published_logger:
  "published (logger_warn m st) types = published st types"
  "published (logger_error m st) types = published st types"
  by (simp_all add: published_def artifacts_def deref_logger)

lemma fishForFHIR_logger:
  "MasterFisher_fishForFHIR env (logger_warn m st) item types = MasterFisher_fishForFHIR env st item types"
  "MasterFisher_fishForFHIR env (logger_error m st) item types = MasterFisher_fishForFHIR env st item types"
  by (simp_all add: MasterFisher_fishForFHIR_def published_logger cong: option.case_cong)

lemma fishForMetadata_logger [simp]:
  "MasterFisher_fishForMetadata env (logger_warn m st) item types
     = MasterFisher_fishForMetadata env st item types"
  "MasterFisher_fishForMetadata env (logger_error m st) item types
     = MasterFisher_fishForMetadata env st item types"
  by (simp_all add: MasterFisher_fishForMetadata_def fishForFHIR_logger split: option.splits)

lemma lastIndexOf_lt: "lastIndexOf P xs = Some i \<Longrightarrow> i < length xs"
  by (induction xs arbitrary: i) (auto split: option.splits if_splits)

lemma lastIndexOf_ge:
  "e < length xs \<Longrightarrow> P (xs ! e) \<Longrightarrow> \<exists>i. lastIndexOf P xs = Some i \<and> e \<le> i \<and> i < length xs"
proof (induction xs arbitrary: e)
  case Nil
  then show ?case by simp
next
  case (Cons x xs)
  show ?case
  proof (cases e)
    case 0
    then show ?thesis
      using Cons.prems lastIndexOf_lt [of P xs] by (auto split: option.splits)
  next
    case (Suc k)
    then obtain i where "lastIndexOf P xs = Some i" "k \<le> i" "i < length xs"
      using Cons by auto
    then show ?thesis using Suc by simp
  qed
qed

lemma insert_at:
  assumes "pos \<le> length els"
  shows "(take pos els @ [s] @ drop pos els) ! pos = s"
    and "(take pos els @ [s] @ drop pos els)[pos := s'] = take pos els @ [s'] @ drop pos els"
    and "e < pos \<Longrightarrow> (take pos els @ [s] @ drop pos els) ! e = els ! e"
    and "length (take pos els @ [s] @ drop pos els) = Suc (length els)"
  using assms by (simp_all add: nth_append list_update_append min_def)

lemma addSlice_fresh:
  assumes "e < length els"
    and "\<not> list_ex (\<lambda>x. el_sliceName x = Some n) (getSlices els (els ! e))"
  shows "\<exists>pos. e < pos \<and> pos \<le> length els
           \<and> addSlice nm n els (els ! e)
               = Inr (take pos els @ [newSlice (els ! e) n] @ drop pos els, pos)"
proof -
  obtain i where i: "lastIndexOf (\<lambda>x. el_path x = el_path (els ! e)) els = Some i" "e \<le> i"
    "i < length els"
    using lastIndexOf_ge [of e els "\<lambda>x. el_path x = el_path (els ! e)"] assms(1) by auto
  then show ?thesis
    using assms(2) by (intro exI [of _ "Suc i"]) (simp add: addSlice_def newSlice_def Let_def)
qed

lemma addSlice_duplicate:
  assumes "list_ex (\<lambda>x. el_sliceName x = Some n) (getSlices els p)"
  shows "addSlice nm n els p = Inl (DuplicateSliceError nm (el_id p) n)"
  using assms by (simp add: addSlice_def)

lemma standalone_first:
  assumes "r < length (heap st)" and "e < length (elementsOf st r)"
    and "el_type (elementsOf st r ! e) = Some (t # ts)"
    and "\<not> list_ex (\<lambda>x. el_sliceName x = Some n)
             (getSlices (elementsOf st r) (elementsOf st r ! e))"
    and "MasterFisher_fishForMetadata env st X [Type.Extension] = Some mx"
  shows "\<exists>pos. e < pos \<and> pos \<le> length (elementsOf st r)
           \<and> standaloneExtensionItem env r e (ContainsRuleItem n (Some X)) X st
               = (setElements r
                    (take pos (elementsOf st r)
                       @ [withProfile (newSlice (elementsOf st r ! e) n) (m_url mx)]
                       @ drop pos (elementsOf st r)) st, None)"
proof -
  define els where "els = elementsOf st r"
  obtain pos where pos: "e < pos" "pos \<le> length els"
    "addSlice (sd_name (theSd st r)) n els (els ! e)
       = Inr (take pos els @ [newSlice (els ! e) n] @ drop pos els, pos)"
    using addSlice_fresh [of e els n] assms(2,4) unfolding els_def by blast
  have ty: "el_type (newSlice (els ! e) n) = Some (t # ts)"
    using assms(3) by (simp add: newSlice_def els_def)
  have "standaloneExtensionItem env r e (ContainsRuleItem n (Some X)) X st
          = (setElements r (take pos els @ [withProfile (newSlice (els ! e) n) (m_url mx)]
                              @ drop pos els) st, None)"
    using assms(1,5) pos ty insert_at [OF pos(2)]
    by (simp add: standaloneExtensionItem_def els_def [symmetric] Let_def setElements_facts
        withProfile_def)
  then show ?thesis using pos unfolding els_def by blast
qed

lemma standalone_again:
  assumes "find (\<lambda>el. el_sliceName el = Some n)
             (getSlices (elementsOf s r) (elementsOf s r ! e)) = Some S"
    and "el_type S = Some (tS # tsS)" and "ty_profile tS = Some psS"
    and "MasterFisher_fishForMetadata env s T [Type.Extension] = Some m"
  shows "standaloneExtensionItem env r e (ContainsRuleItem n (Some T)) T s
           = ((if m_url m \<in> set psS
               then logger_warn (ErrorMessage (DuplicateSliceError (sd_name (theSd s r))
                                   (el_id (elementsOf s r ! e)) n)) s
               else logger_error (ErrorMessage (DuplicateSliceError (sd_name (theSd s r))
                                   (el_id (elementsOf s r ! e)) n)) s), None)"
proof -
  have "list_ex (\<lambda>x. el_sliceName x = Some n) (getSlices (elementsOf s r) (elementsOf s r ! e))"
    using assms(1) by (auto simp: list_ex_iff find_Some_iff)
  then have "addSlice (sd_name (theSd s r)) n (elementsOf s r) (elementsOf s r ! e)
      = Inl (DuplicateSliceError (sd_name (theSd s r)) (el_id (elementsOf s r ! e)) n)"
    by (rule addSlice_duplicate)
  then show ?thesis
    using assms by (simp add: standaloneExtensionItem_def list_ex_iff)
qed

lemma isSliceOf_parent:
  "el_path a = el_path b \<Longrightarrow> el_id a = el_id b \<Longrightarrow> isSliceOf a = isSliceOf b"
  by (rule ext) (simp add: isSliceOf_def split: option.splits)

lemma find_app: "find P (xs @ ys) = (case find P xs of Some x \<Rightarrow> Some x | None \<Rightarrow> find P ys)"
  by (induction xs) auto

lemma find_insert:
  assumes "\<not> list_ex Q (filter R els)" and "Q y" and "R y"
  shows "find Q (filter R (take pos els @ [y] @ drop pos els)) = Some y"
    and "filter Q (filter R (take pos els @ [y] @ drop pos els)) = [y]"
proof -
  have "set (take pos els) \<subseteq> set els" "set (drop pos els) \<subseteq> set els"
    by (simp_all add: set_take_subset set_drop_subset)
  then have n: "\<forall>x \<in> set (take pos els). \<not> (R x \<and> Q x)" "\<forall>x \<in> set (drop pos els). \<not> (R x \<and> Q x)"
    using assms(1) by (auto simp: list_ex_iff)
  have a: "filter Q (filter R (take pos els)) = []" "filter Q (filter R (drop pos els)) = []"
    using n by (auto simp: filter_empty_conv)
  have f: "find Q (filter R (take pos els)) = None"
    using n by (auto simp: find_None_iff)
  show "filter Q (filter R (take pos els @ [y] @ drop pos els)) = [y]"
    using a assms(2,3) by simp
  show "find Q (filter R (take pos els @ [y] @ drop pos els)) = Some y"
    using f assms(2,3) by (simp add: find_app)
qed

lemma list_ex_filter_update:
  assumes "e < length xs" and "Q y = Q (xs ! e)" and "R y = R (xs ! e)"
  shows "list_ex Q (filter R (xs[e := y])) = list_ex Q (filter R xs)"
proof -
  have "map (\<lambda>x. R x \<and> Q x) (xs[e := y]) = map (\<lambda>x. R x \<and> Q x) xs"
    using assms by (simp add: map_update list_update_same_conv)
  then have "list_ex (\<lambda>b. b) (map (\<lambda>x. R x \<and> Q x) (xs[e := y]))
           = list_ex (\<lambda>b. b) (map (\<lambda>x. R x \<and> Q x) xs)"
    by simp
  then show ?thesis
    by (auto simp: list_ex_iff)
qed

lemma exportStructDef_nested:
  "exportStructDef depth env d st = exportStructDef_body (nestedExport depth env) env d st"
  by (cases depth) (simp_all add: nestedExport_def)

lemma exportStructDef_body_steps:
  assumes "\<not> alreadyExported d st"
    and "getStructureDefinition this_export env d st = Some (Inr (parentDef, d1), s1)"
    and "setMetadata env (tank s1) (intoProgress env parentDef d1) d1 = Inr structDef"
    and "publishAndApply env d1 structDef (warnIfInProgress parentDef d1 s1) = (r, st2)"
  shows "exportStructDef_body this_export env d st = Some (Inr (Some r), checkDuplicateId r st2)"
proof (cases "sd_inProgress parentDef"; cases "isLogical d1")
qed (use assms in \<open>auto simp: exportStructDef_body_def Let_def split_beta publishAndApply_def
        warnIfInProgress_def intoProgress_def\<close>)

lemma checkDuplicateId_log:
  "checkDuplicateId r st2 =
       st2\<lparr>logged := logged st2 @
         (if list_ex (\<lambda>other. other \<noteq> r
                        \<and> map_option sd_id (deref st2 other) = Some (sd_id (theSd st2 r)))
               (published_refs (pkg st2))
          then [duplicateIdError (sd_id (theSd st2 r))] else [])\<rparr>"
  by (auto simp: checkDuplicateId_def hasDuplicateId_def sameIdElsewhere_def published_refs_def
        list_ex_iff)

text \<open>
  Claim C5. (as amended) The check for a duplicate id is the last step of a successful
  \<^verbatim>\<open>exportStructDef\<close>. Let \<open>st2\<close> be the state in which publishing the skeleton made from
  the parent, preprocessing, rule application, clean-up and the clearing of the inProgress
  flag leave the export. Then the call returns the structure definition, in the state
  \<open>st2\<close> with the duplicate-id error appended to its log exactly when some other structure
  definition in any of the three partitions of the package (profiles, extensions and
  logicals) has the id of the one just exported, and with nothing appended otherwise. The
  error is not fatal, and the structure definition is in the package either way.
\<close>

theorem duplicate_id_check:
  assumes "\<not> alreadyExported d st"
    and "getStructureDefinition (nestedExport depth env) env d st = Some (Inr (parentDef, d1), s1)"
    and "setMetadata env (tank s1) (intoProgress env parentDef d1) d1 = Inr structDef"
    and "publishAndApply env d1 structDef (warnIfInProgress parentDef d1 s1) = (r, st2)"
  shows "exportStructDef depth env d st =
           Some (Inr (Some r),
                 st2\<lparr>logged := logged st2 @
                   (if list_ex (\<lambda>other. other \<noteq> r
                          \<and> map_option sd_id (deref st2 other) = Some (sd_id (theSd st2 r)))
                         (published_refs (pkg st2))
                    then [duplicateIdError (sd_id (theSd st2 r))] else [])\<rparr>)
         \<and> r \<in> set (published_refs (pkg st2)) \<and> r < length (heap st2)"
proof -
  have e: "exportStructDef depth env d st = Some (Inr (Some r), checkDuplicateId r st2)"
    using exportStructDef_body_steps [OF assms] by (simp add: exportStructDef_nested)
  define s2 where "s2 = snd (pushStructDef structDef (warnIfInProgress parentDef d1 s1))"
  have p: "pushStructDef structDef (warnIfInProgress parentDef d1 s1) = (r, s2)"
    using assms(4) by (auto simp: publishAndApply_def Let_def split_beta s2_def)
  have s: "st2 = updSd r (\<lambda>sd. sd\<lparr>sd_inProgress := False\<rparr>) (updSd r (cleanResource env)
             (snd (setRules env r
                (fst (preprocessStructureDefinition d1 (sd_type structDef = ''Extension'') s2))
                (snd (preprocessStructureDefinition d1 (sd_type structDef = ''Extension'') s2)))))"
    using assms(4) by (auto simp: publishAndApply_def Let_def split_beta s2_def)
  have f: "frame s2 st2"
    unfolding s by simp
  have "r \<in> set (published_refs (pkg st2)) \<and> r < length (heap st2)"
    using pushStructDef_facts [OF p] frame_published [OF f] by auto
  then show ?thesis
    using e checkDuplicateId_log [of r st2] by simp
qed

lemma cycle_body:
  assumes "defParent a = Some pa" "pa \<noteq> []" "pa \<noteq> name (entity a)" "pa \<noteq> id' (entity a)"
    "\<not> alreadyExported a st"
    "MasterFisher_fishForFHIR env st (Some pa) [] = None"
    "fish (common env) (tank st) pa [Type.Profile, Type.Extension, Type.Logical] = Some b"
    "this_export b st = None"
  shows "exportStructDef_body this_export env a st = None"
  using assms
  by (simp add: exportStructDef_body_def getStructureDefinition_def fishForFHIR_def isEmpty_def Let_def)

text \<open>
  Claim C3. Two entities each of which names the other as its parent, neither of them
  in the package or among the FHIR definitions: a call of \<^verbatim>\<open>exportStructDef\<close> for either does
  not return, however many nested exports are allowed. The parent is resolved, by a nested
  export, before the entity's own skeleton is pushed into the package; the nested export
  of the parent therefore finds the entity neither published nor in progress and exports it
  anew. The inProgress flag is never met, no warning is logged and nothing is published.
\<close>

theorem mutual_parents_never_return:
  assumes "defParent a = Some pa" and "pa \<noteq> []" and "pa \<noteq> name (entity a)" and "pa \<noteq> id' (entity a)"
    and "defParent b = Some pb" and "pb \<noteq> []" and "pb \<noteq> name (entity b)" and "pb \<noteq> id' (entity b)"
    and "\<not> alreadyExported a st" and "\<not> alreadyExported b st"
    and "MasterFisher_fishForFHIR env st (Some pa) [] = None"
    and "MasterFisher_fishForFHIR env st (Some pb) [] = None"
    and "fish (common env) (tank st) pa [Type.Profile, Type.Extension, Type.Logical] = Some b"
    and "fish (common env) (tank st) pb [Type.Profile, Type.Extension, Type.Logical] = Some a"
  shows "exportStructDef depth env a st = None \<and> exportStructDef depth env b st = None"
proof (induction depth)
  case 0
  show ?case
    using cycle_body [OF assms(1-4) assms(9) assms(11) assms(13)]
      cycle_body [OF assms(5-8) assms(10) assms(12) assms(14)]
    by simp
next
  case (Suc depth)
  then show ?case
    using cycle_body [OF assms(1-4) assms(9) assms(11) assms(13)]
      cycle_body [OF assms(5-8) assms(10) assms(12) assms(14)]
    by simp
qed

theorem exportStructDef_self_parent_counterexample:
  "exportStructDef 0 exampleCollaborators (Profile childProfile) busyState
     = Some (Inr (Some 2), afterChild)
   \<and> defParent (Logical selfLogical) = Some (name (entity (Logical selfLogical)))
   \<and> (\<forall>depth. exportStructDef depth exampleCollaborators (Logical selfLogical) afterChild
        = Some (Inr None, afterChild))"
proof -
  have "alreadyExported (Logical selfLogical) afterChild"
    by (rule alreadyExported_published [where r = 2])
      (simp_all add: afterChild_facts selfLogical_def fshStructure_def)
  then have "exportStructDef depth exampleCollaborators (Logical selfLogical) afterChild
        = Some (Inr None, afterChild)" for depth
    by (cases depth) (simp_all add: exportStructDef_body_def)
  then show ?thesis
    using child_run by (simp add: selfLogical_def fshStructure_def)
qed

lemmas example_defs2 = example_defs otherProfile_def otherArtifact_def
  nestedExport_def warnIfInProgress_def intoProgress_def publishAndApply_def

lemma child_steps:
  "\<not> alreadyExported (Profile childProfile) busyState"
  "getStructureDefinition (nestedExport 0 exampleCollaborators) exampleCollaborators
      (Profile childProfile) busyState
     = Some (Inr (theSd busyState 0, Profile childProfile), busyState)"
  "setMetadata exampleCollaborators (tank busyState)
      (intoProgress exampleCollaborators (theSd busyState 0) (Profile childProfile))
      (Profile childProfile)
     = Inr (childArtifact\<lparr>sd_inProgress := True\<rparr>)"
  "publishAndApply exampleCollaborators (Profile childProfile) (childArtifact\<lparr>sd_inProgress := True\<rparr>)
      (warnIfInProgress (theSd busyState 0) (Profile childProfile) busyState)
     = (2, afterChild\<lparr>logged := [circularWarning (Profile childProfile)]\<rparr>)"
  by (simp_all add: model_defs example_defs2 Let_def cong: let_weak_cong)

lemma other_steps:
  "\<not> alreadyExported (Profile otherProfile) busyState"
  "getStructureDefinition (nestedExport 0 exampleCollaborators) exampleCollaborators
      (Profile otherProfile) busyState
     = Some (Inr (theSd busyState 0, Profile otherProfile), busyState)"
  "setMetadata exampleCollaborators (tank busyState)
      (intoProgress exampleCollaborators (theSd busyState 0) (Profile otherProfile))
      (Profile otherProfile)
     = Inr (otherArtifact\<lparr>sd_inProgress := True\<rparr>)"
  "publishAndApply exampleCollaborators (Profile otherProfile) (otherArtifact\<lparr>sd_inProgress := True\<rparr>)
      (warnIfInProgress (theSd busyState 0) (Profile otherProfile) busyState)
     = (2, afterChild\<lparr>heap := heap busyState @ [otherArtifact],
                       logged := [circularWarning (Profile otherProfile)]\<rparr>)"
  by (simp_all add: model_defs example_defs2 Let_def cong: let_weak_cong)

theorem duplicate_id_check_witness:
  "exportStructDef 0 exampleCollaborators (Profile childProfile) busyState
     = Some (Inr (Some 2), afterChild)
   \<and> logged afterChild = [circularWarning (Profile childProfile), duplicateIdError ''x'']
   \<and> 2 \<in> set (published_refs (pkg afterChild))
   \<and> exportStructDef 0 exampleCollaborators (Profile otherProfile) busyState
     = Some (Inr (Some 2),
             afterChild\<lparr>heap := heap busyState @ [otherArtifact],
                        logged := [circularWarning (Profile otherProfile)]\<rparr>)"
proof -
  have c: "list_ex (\<lambda>other. other \<noteq> 2
             \<and> map_option sd_id (deref (afterChild\<lparr>logged := [circularWarning (Profile childProfile)]\<rparr>) other)
                 = Some (sd_id (theSd (afterChild\<lparr>logged := [circularWarning (Profile childProfile)]\<rparr>) 2)))
            (published_refs (pkg (afterChild\<lparr>logged := [circularWarning (Profile childProfile)]\<rparr>)))"
    by (simp add: afterChild_def busyState_def childArtifact_def tinyDefinition_def theSd_def
        deref_def published_refs_def)
  have i: "sd_id (theSd (afterChild\<lparr>logged := [circularWarning (Profile childProfile)]\<rparr>) 2) = ''x''"
    by (simp add: afterChild_def busyState_def childArtifact_def tinyDefinition_def theSd_def)
  have o: "\<not> list_ex (\<lambda>other. other \<noteq> 2
             \<and> map_option sd_id (deref (afterChild\<lparr>heap := heap busyState @ [otherArtifact],
                        logged := [circularWarning (Profile otherProfile)]\<rparr>) other)
                 = Some (sd_id (theSd (afterChild\<lparr>heap := heap busyState @ [otherArtifact],
                        logged := [circularWarning (Profile otherProfile)]\<rparr>) 2)))
            (published_refs (pkg (afterChild\<lparr>heap := heap busyState @ [otherArtifact],
                        logged := [circularWarning (Profile otherProfile)]\<rparr>)))"
    by (simp add: afterChild_def busyState_def childArtifact_def otherArtifact_def
        tinyDefinition_def theSd_def deref_def published_refs_def)
  have l: "afterChild\<lparr>logged := [circularWarning (Profile childProfile), duplicateIdError ''x'']\<rparr>
             = afterChild"
    by (simp add: afterChild_def)
  show ?thesis
    using duplicate_id_check [OF child_steps] duplicate_id_check [OF other_steps] c i o l
    by (simp add: afterChild_facts)
qed

theorem mutual_parents_never_return_witness:
  "defParent (Profile cycA) = Some ''B'' \<and> defParent (Profile cycB) = Some ''A''
   \<and> \<not> alreadyExported (Profile cycA) cycleState \<and> \<not> alreadyExported (Profile cycB) cycleState
   \<and> fish (common exampleCollaborators) (tank cycleState) ''B''
         [Type.Profile, Type.Extension, Type.Logical] = Some (Profile cycB)
   \<and> fish (common exampleCollaborators) (tank cycleState) ''A''
         [Type.Profile, Type.Extension, Type.Logical] = Some (Profile cycA)
   \<and> (\<forall>depth. exportStructDef depth exampleCollaborators (Profile cycA) cycleState = None
         \<and> exportStructDef depth exampleCollaborators (Profile cycB) cycleState = None)"
proof -
  have a: "defParent (Profile cycA) = Some ''B''" "''B'' \<noteq> []"
    "''B'' \<noteq> name (entity (Profile cycA))" "''B'' \<noteq> id' (entity (Profile cycA))"
    by (simp_all add: cycA_def fshStructure_def)
  have b: "defParent (Profile cycB) = Some ''A''" "''A'' \<noteq> []"
    "''A'' \<noteq> name (entity (Profile cycB))" "''A'' \<noteq> id' (entity (Profile cycB))"
    by (simp_all add: cycB_def fshStructure_def)
  have n: "\<not> alreadyExported (Profile cycA) cycleState" "\<not> alreadyExported (Profile cycB) cycleState"
    by (simp_all add: alreadyExported_def cycleState_def startState_def artifacts_def)
  have m: "MasterFisher_fishForFHIR exampleCollaborators cycleState (Some ''B'') [] = None"
    "MasterFisher_fishForFHIR exampleCollaborators cycleState (Some ''A'') [] = None"
    by (simp_all add: model_defs example_defs Let_def cong: let_weak_cong)
  have f: "fish (common exampleCollaborators) (tank cycleState) ''B''
         [Type.Profile, Type.Extension, Type.Logical] = Some (Profile cycB)"
    "fish (common exampleCollaborators) (tank cycleState) ''A''
         [Type.Profile, Type.Extension, Type.Logical] = Some (Profile cycA)"
    by (simp_all add: model_defs example_defs Let_def cong: let_weak_cong)
  show ?thesis
    using mutual_parents_never_return [OF a b n m f] a(1) b(1) n f by simp
qed

lemma fishType_resolveKind: "fishType c tnk base ver t = resolveKind c tnk base ver t"
  by (cases t)
    (simp_all add: fishType_def resolveKind_def resolveStructure_def declared_def
      declaredInstances_def getAllProfiles_def getAllExtensions_def getAllLogicals_def
      getAllResources_def getAllInstances_def find_map_wrap matchesIdentifier_def
      isDefinitionOfKind_fun declaresKind_def case_map_option_Some split: option.splits)

lemma splitVersion_identifier:
  assumes "CHR ''|'' \<notin> set base" and "ver \<noteq> Some []"
  shows "splitVersion (withVersion base ver) = (base, ver)"
proof -
  have t: "takeWhile (\<lambda>c. c \<noteq> CHR ''|'') (base @ rest) = base @ takeWhile (\<lambda>c. c \<noteq> CHR ''|'') rest"
    and d: "dropWhile (\<lambda>c. c \<noteq> CHR ''|'') (base @ rest) = dropWhile (\<lambda>c. c \<noteq> CHR ''|'') rest" for rest
    using assms(1) by (induction base) auto
  show ?thesis
  proof (cases ver)
    case None
    have tw: "takeWhile (\<lambda>c. c \<noteq> CHR ''|'') base = base"
      and dw: "dropWhile (\<lambda>c. c \<noteq> CHR ''|'') base = []"
      using assms(1) by (auto simp: takeWhile_eq_all_conv)
    show ?thesis
      using None by (simp add: splitVersion_def withVersion_def tw dw)
  next
    case (Some v)
    then show ?thesis
      using t [of "CHR ''|'' # v"] d [of "CHR ''|'' # v"] assms(2)
      by (simp add: splitVersion_def withVersion_def)
  qed
qed

text \<open>
  Claim C8. Called with no expected kinds on an item that (after resolving an alias) is a
  base without a bar, alone or followed by a bar and a version, \<open>fish\<close> tries the kinds in the
  order Profile, Extension, Logical, Resource, ValueSet, CodeSystem, Instance, Invariant,
  RuleSet, Mapping and returns the first match. For each of the four structure-definition
  kinds the match is, first, a declared entity of that kind (of whichever document) that
  matches the base on name, id or derived canonical URL, and the version when one is given;
  and only when there is none, a declared Instance of StructureDefinition with usage
  Definition that matches in the same way and whose assignment rules declare that kind.
\<close>

theorem fish_resolution_order:
  assumes "(case resolveAlias tnk item of Some a \<Rightarrow> a | None \<Rightarrow> item) = withVersion base ver"
    and "CHR ''|'' \<notin> set base" and "ver \<noteq> Some []"
  shows "fish c tnk item [] = firstMatch (resolveKind c tnk base ver) resolutionOrder"
proof -
  have "fishType c tnk base ver = resolveKind c tnk base ver"
    by (rule ext) (rule fishType_resolveKind)
  then show ?thesis
    using assms(1) splitVersion_identifier [OF assms(2,3)]
    by (simp add: fish_def Let_def fishTypes_firstMatch resolutionOrder_def)
qed

lemmas version_defs = versionTank_def tankOf_def emptyDocument_def exampleConfig_def
  exampleCommon_def fshStructure_def withVersion_def firstMatch_def resolutionOrder_def
  resolveKind_def resolveStructure_def declared_def declaredInstances_def matchesIdentifier_def
  isDefinitionOfKind_def declaresKind_def map_filter_def

theorem fish_resolution_order_witness:
  "fish exampleCommon versionTank ''P'' [] = Some (Profile (fshStructure ''P'' ''p'' (Some ''B'') []))
   \<and> fish exampleCommon versionTank ''P|1.0.0'' []
       = Some (Profile (fshStructure ''P'' ''p'' (Some ''B'') []))
   \<and> fish exampleCommon versionTank ''P|9.9.9'' [] = None
   \<and> fish exampleCommon versionTank ''p-ext'' [] = Some (Extension (fshStructure ''P'' ''p-ext'' None []))
   \<and> fish exampleCommon versionTank ''http://example.org/StructureDefinition/e|1.0.0'' []
       = Some (Extension (fshStructure ''E'' ''e'' None []))
   \<and> map_option (name \<circ> entity) (fish exampleCommon versionTank ''Q'' []) = Some ''Q''
   \<and> resolveKind exampleCommon versionTank ''Q'' None Type.Extension
       = fish exampleCommon versionTank ''Q'' []
   \<and> resolveKind exampleCommon versionTank ''Q'' None Type.Profile = None"
proof -
  have a: "resolveAlias versionTank x = None" for x
    by (simp add: resolveAlias_def versionTank_def tankOf_def emptyDocument_def)
  have 1: "fish exampleCommon versionTank ''P'' [] = Some (Profile (fshStructure ''P'' ''p'' (Some ''B'') []))"
    using fish_resolution_order [where tnk = versionTank and item = "''P''"
        and base = "''P''" and ver = "None" and c = exampleCommon] a
    by (simp add: version_defs)
  have 2: "fish exampleCommon versionTank ''P|1.0.0'' []
       = Some (Profile (fshStructure ''P'' ''p'' (Some ''B'') []))"
    using fish_resolution_order [where tnk = versionTank and item = "''P|1.0.0''"
        and base = "''P''" and ver = "Some ''1.0.0''" and c = exampleCommon] a
    by (simp add: version_defs)
  have 3: "fish exampleCommon versionTank ''P|9.9.9'' [] = None"
    using fish_resolution_order [where tnk = versionTank and item = "''P|9.9.9''"
        and base = "''P''" and ver = "Some ''9.9.9''" and c = exampleCommon] a
    by (simp add: version_defs model_defs)
  have 4: "fish exampleCommon versionTank ''p-ext'' [] = Some (Extension (fshStructure ''P'' ''p-ext'' None []))"
    using fish_resolution_order [where tnk = versionTank and item = "''p-ext''"
        and base = "''p-ext''" and ver = "None" and c = exampleCommon] a
    by (simp add: version_defs)
  have 5: "fish exampleCommon versionTank ''http://example.org/StructureDefinition/e|1.0.0'' []
       = Some (Extension (fshStructure ''E'' ''e'' None []))"
    using fish_resolution_order [where tnk = versionTank and item = "''http://example.org/StructureDefinition/e|1.0.0''"
        and base = "''http://example.org/StructureDefinition/e''" and ver = "Some ''1.0.0''" and c = exampleCommon] a
    by (simp add: version_defs)
  have 6: "resolveKind exampleCommon versionTank ''Q'' None Type.Profile = None"
    "\<exists>i. resolveKind exampleCommon versionTank ''Q'' None Type.Extension = Some (Instance i) \<and> name i = ''Q''"
    by (simp_all add: version_defs)
  have 7: "fish exampleCommon versionTank ''Q'' [] = resolveKind exampleCommon versionTank ''Q'' None Type.Extension"
    using fish_resolution_order [where tnk = versionTank and item = "''Q''"
        and base = "''Q''" and ver = "None" and c = exampleCommon] a
    by (simp add: version_defs)
  show ?thesis
    using 1 2 3 4 5 6 7 by auto
qed

lemma keeps_refl [simp]: "keeps r st st"
  by (simp add: keeps_def)

lemma keeps_trans: "keeps r a b \<Longrightarrow> keeps r b c \<Longrightarrow> keeps r a c"
  by (simp add: keeps_def)

lemma keeps_foldl:
  assumes "\<And>s x. x \<in> set xs \<Longrightarrow> keeps r s (f s x)"
  shows "keeps r st (foldl f st xs)"
  using assms
proof (induction xs arbitrary: st)
  case Nil
  show ?case by simp
next
  case (Cons x xs)
  have "keeps r st (f st x)" using Cons.prems by simp
  moreover have "keeps r (f st x) (foldl f (f st x) xs)"
    using Cons.IH Cons.prems by simp
  ultimately show ?case using keeps_trans by fastforce
qed

lemma keeps_logger [simp]:
  "keeps r st (logger_error m st)" "keeps r st (logger_warn m st)" "keeps r st (logger_info m st)"
  by (simp_all add: keeps_def logger_error_def logger_warn_def logger_info_def theSd_def)

lemma keeps_logThrown [simp]: "keeps r st (logThrown err st)"
  by (simp add: logThrown_def split: option.splits)

lemma keeps_setElements [simp]: "keeps r st (setElements r els st)"
  by (cases "r < length (heap st)")
    (simp_all add: keeps_def setElements_def updSd_def theSd_def header_def list_update_beyond)

lemma keeps_updElement [simp]: "keeps r st (updElement r e f st)"
  by (simp add: updElement_def)

lemma keeps_after [simp]:
  "keeps r a b \<Longrightarrow> keeps r a (logger_error m b)"
  "keeps r a b \<Longrightarrow> keeps r a (logger_warn m b)"
  "keeps r a b \<Longrightarrow> keeps r a (logThrown err b)"
  "keeps r a b \<Longrightarrow> keeps r a (setElements r els b)"
  "keeps r a b \<Longrightarrow> keeps r a (updElement r e g b)"
  by (auto intro: keeps_trans)

lemma keeps_tryElementOp [simp]: "keeps r st (tryElementOp r e op st)"
  by (simp add: tryElementOp_def split_beta)

lemma keeps_tryElementOp_after [simp]: "keeps r a b \<Longrightarrow> keeps r a (tryElementOp r e op b)"
  using keeps_tryElementOp keeps_trans by blast

lemma keeps_applyAddElementRule [simp]: "keeps r st (applyAddElementRule env r st rule)"
  by (simp add: applyAddElementRule_def split_beta)

lemma keeps_fields [simp]:
  "keeps r st (st\<lparr>deferredRules := x\<rparr>)" "keeps r st (st\<lparr>tank := t\<rparr>)" "keeps r st (st\<lparr>logged := l\<rparr>)"
  by (simp_all add: keeps_def theSd_def)

lemma keeps_applyCaretValueRule [simp]:
  "p \<noteq> [] \<Longrightarrow> keeps r st (applyCaretValueRule env d r element p caretPath v isInst st)"
  by (simp add: applyCaretValueRule_def split_beta split: sum.splits option.splits)

lemma keeps_applyCaretValueRule_after [simp]:
  "p \<noteq> [] \<Longrightarrow> keeps r a b \<Longrightarrow> keeps r a (applyCaretValueRule env d r element p caretPath v isInst b)"
  using keeps_applyCaretValueRule keeps_trans by blast

lemma keeps_assignReplaced [simp]: "keeps r st (assignReplaced env r e v exactly st)"
  by (simp add: assignReplaced_def split: sum.splits)

lemma keeps_assignReplaced_after [simp]: "keeps r a b \<Longrightarrow> keeps r a (assignReplaced env r e v exactly b)"
  using keeps_assignReplaced keeps_trans by blast

lemma keeps_addPlainSlice [simp]: "keeps r st (addPlainSlice p r e st item)"
  by (auto simp: addPlainSlice_def Let_def split: sum.splits)

lemma keeps_standaloneExtensionItem [simp]:
  "keeps r st (fst (standaloneExtensionItem env r e item ty st))"
  by (auto simp: standaloneExtensionItem_def Let_def
      split: sum.splits option.splits list.splits Error.splits)

lemma keeps_inlineExtensionItem [simp]:
  "keeps r st (fst (inlineExtensionItem env d p r e item st))"
  by (auto simp: inlineExtensionItem_def Let_def split_beta
      split: sum.splits option.splits)

lemma keeps_handleExtensionItems [simp]:
  "keeps r st (fst (handleExtensionItems env d p r e items st))"
proof (induction items arbitrary: st)
  case Nil
  show ?case by simp
next
  case (Cons item items)
  define step where
    "step = (case item_type item of
               None \<Rightarrow> inlineExtensionItem env d p r e item st
             | Some ty \<Rightarrow>
                 if ty = [] then inlineExtensionItem env d p r e item st
                 else standaloneExtensionItem env r e item ty st)"
  have f: "keeps r st (fst step)"
    unfolding step_def by (simp split: option.splits)
  have "handleExtensionItems env d p r e (item # items) st =
          (case step of
             (st', Some err) \<Rightarrow> (st', Some err)
           | (st', None) \<Rightarrow> handleExtensionItems env d p r e items st')"
    by (simp add: step_def)
  then show ?case
    using f Cons [of "fst step"]
    by (cases step) (auto split: option.splits intro: keeps_trans)
qed

lemma keeps_handleExtensionContainsRule [simp]:
  "keeps r st (fst (handleExtensionContainsRule env d p items r e st))"
  using keeps_handleExtensionItems keeps_trans keeps_updElement
  by (fastforce simp: handleExtensionContainsRule_def Let_def)

lemma keeps_applyToElement [simp]: "keeps r st (applyToElement env d r e rule st)"
proof (cases rule)
  case (ContainsRule p items)
  have "keeps r st (fst (handleExtensionContainsRule env d p items r e st))" by simp
  moreover have "keeps r st (foldl (addPlainSlice p r e) st items)"
    by (rule keeps_foldl) simp
  ultimately show ?thesis
    using ContainsRule by (auto simp: applyToElement_def Let_def split_beta)
next
  case (ObeysRule p n)
  then show ?thesis
    by (auto simp: applyToElement_def Let_def split: option.splits FshDefinition.splits)
qed (auto simp: applyToElement_def Let_def split: option.splits list.splits)

lemma keeps_applyToElement_after [simp]: "keeps r a b \<Longrightarrow> keeps r a (applyToElement env d r e rule b)"
  using keeps_applyToElement keeps_trans by blast

lemma keeps_applySdRule [simp]: "notOnArtifact rule \<Longrightarrow> keeps r st (applySdRule env d r st rule)"
  unfolding applySdRule_def Let_def split_beta
  by (cases rule) (auto split: option.splits)

lemma keeps_setRules:
  assumes "list_all notOnArtifact (resolveSoftIndexing env (rules (entity d)))"
  shows "keeps r st (snd (setRules env r d st))"
proof -
  have rs: "rules (entity (setRulesOf xs d)) = xs" for xs
    by (cases d) simp_all
  have a: "keeps r s (foldl (applySdRule env D r) s
             (filter (\<lambda>rule. \<not> isAddElementRule rule) (resolveSoftIndexing env (rules (entity d)))))" for s D
    by (rule keeps_foldl) (use assms in \<open>auto simp: list_all_iff\<close>)
  have b: "\<And>s. keeps r s (foldl (applyAddElementRule env r) s xs)" for xs
    by (rule keeps_foldl) simp
  show ?thesis
    unfolding setRules_def Let_def
    by (auto simp: rs intro!: keeps_trans [OF _ a] keeps_trans [OF _ b])
qed

lemma keeps_preprocess [simp]: "keeps r st (snd (preprocessStructureDefinition d isExt st))"
  by (simp add: preprocessStructureDefinition_def split_beta keeps_def Let_def theSd_def)

lemma preprocess_rules:
  "list_all notOnArtifact (rules (entity d)) \<Longrightarrow>
     list_all notOnArtifact (rules (entity (fst (preprocessStructureDefinition d isExt st))))"
proof -
  have rs: "rules (entity (setRulesOf xs d)) = xs" for xs
    by (cases d) simp_all
  show "list_all notOnArtifact (rules (entity d)) \<Longrightarrow> ?thesis"
    by (auto simp: preprocessStructureDefinition_def preprocessRules_def split_beta Let_def rs
        inferredCardRules_def list_all_iff)
qed

lemma preprocess_kind:
  "isLogical (fst (preprocessStructureDefinition d isExt st)) = isLogical d"
  "id' (entity (fst (preprocessStructureDefinition d isExt st))) = id' (entity d)"
  by (cases d; simp add: preprocessStructureDefinition_def split_beta Let_def)+

lemma getStructureDefinition_entity:
  assumes "getStructureDefinition this_export env d st = Some (Inr (parentDef, d1), s1)"
  shows "rules (entity d1) = rules (entity d) \<and> isLogical d1 = isLogical d
         \<and> id' (entity d1) = id' (entity d)"
proof -
  have "d1 = d \<or> (\<exists>e. d = Extension e \<and> d1 = Extension (e\<lparr>parent := Some ''Extension''\<rparr>))
        \<or> (\<exists>l. d = Logical l \<and> d1 = Logical (l\<lparr>parent := Some ''Element''\<rparr>))"
    using assms
    by (auto simp: getStructureDefinition_def Let_def
        split: if_splits FshDefinition.splits option.splits sum.splits prod.splits)
  then show ?thesis by auto
qed

lemma exportStructDef_body_run:
  assumes "exportStructDef_body this_export env d st = Some (Inr (Some r), st')"
  obtains parentDef d1 s1 sk st2 where
    "getStructureDefinition this_export env d st = Some (Inr (parentDef, d1), s1)"
    "setMetadata env (tank s1) (intoProgress env parentDef d1) d1 = Inr sk"
    "publishAndApply env d1 sk (warnIfInProgress parentDef d1 s1) = (r, st2)"
    "st' = checkDuplicateId r st2"
proof -
  have na: "\<not> alreadyExported d st"
    using assms by (auto simp: exportStructDef_body_def split: if_splits)
  from assms obtain parentDef d1 s1 where
    g: "getStructureDefinition this_export env d st = Some (Inr (parentDef, d1), s1)"
    by (auto simp: exportStructDef_body_def split: if_splits option.splits sum.splits)
  from assms g na obtain sk where m: "setMetadata env (tank s1) (intoProgress env parentDef d1) d1 = Inr sk"
    by (cases "sd_inProgress parentDef"; cases "isLogical d1")
      (auto simp: exportStructDef_body_def Let_def intoProgress_def split: sum.splits)
  obtain r0 st2 where
    pa: "publishAndApply env d1 sk (warnIfInProgress parentDef d1 s1) = (r0, st2)"
    by fastforce
  from exportStructDef_body_steps [OF na g m pa] assms
  have "r = r0" "st' = checkDuplicateId r0 st2" by simp_all
  then show thesis using that g m pa by blast
qed

lemma header_fields:
  assumes "header a = header b"
  shows "sd_baseDefinition a = sd_baseDefinition b" "sd_derivation a = sd_derivation b"
    "sd_type a = sd_type b"
proof -
  have "sd_baseDefinition (header a) = sd_baseDefinition (header b)"
    "sd_derivation (header a) = sd_derivation (header b)"
    "sd_type (header a) = sd_type (header b)"
    using assms by simp_all
  then show "sd_baseDefinition a = sd_baseDefinition b" "sd_derivation a = sd_derivation b"
    "sd_type a = sd_type b"
    by (simp_all add: header_def)
qed

text \<open>
  Claim C9. (as amended) When \<^verbatim>\<open>exportStructDef\<close> returns a structure definition for an
  entity none of whose rules is a caret-value rule on the artifact itself (one with an
  empty path), the collaborators being such that soft-index resolution brings in no such
  rule and the final clean-up leaves baseDefinition, derivation and type alone, then the
  artifact published has as baseDefinition the url of the parent's structure definition as
  \<^verbatim>\<open>getStructureDefinition\<close> handed it over (before any metadata is changed), as derivation
  "specialization" for a Logical model and "constraint" otherwise, and for a Logical model
  as type the entity's own id. A caret-value rule on the artifact overrides what
  \<^verbatim>\<open>setMetadata\<close> has set, which is why such rules are excluded.
\<close>

theorem exportStructDef_derivation:
  assumes "exportStructDef depth env d st = Some (Inr (Some r), st')"
    and "list_all notOnArtifact (rules (entity d))"
    and "\<forall>rs. list_all notOnArtifact rs \<longrightarrow> list_all notOnArtifact (resolveSoftIndexing env rs)"
    and "\<forall>sd. sd_baseDefinition (cleanResource env sd) = sd_baseDefinition sd
              \<and> sd_derivation (cleanResource env sd) = sd_derivation sd
              \<and> sd_type (cleanResource env sd) = sd_type sd"
  shows "\<exists>parentDef d1 s1.
           getStructureDefinition (nestedExport depth env) env d st = Some (Inr (parentDef, d1), s1)
           \<and> sd_baseDefinition (theSd st' r) = Some (sd_url parentDef)
           \<and> sd_derivation (theSd st' r)
               = Some (if isLogical d then ''specialization'' else ''constraint'')
           \<and> (isLogical d \<longrightarrow> sd_type (theSd st' r) = id' (entity d))"
proof -
  from assms(1) have "exportStructDef_body (nestedExport depth env) env d st = Some (Inr (Some r), st')"
    by (simp add: exportStructDef_nested)
  then obtain parentDef d1 s1 sk st2 where
    g: "getStructureDefinition (nestedExport depth env) env d st = Some (Inr (parentDef, d1), s1)"
    and m: "setMetadata env (tank s1) (intoProgress env parentDef d1) d1 = Inr sk"
    and pa: "publishAndApply env d1 sk (warnIfInProgress parentDef d1 s1) = (r, st2)"
    and c: "st' = checkDuplicateId r st2"
    by (rule exportStructDef_body_run)
  define s2 where "s2 = snd (pushStructDef sk (warnIfInProgress parentDef d1 s1))"
  define d2 where "d2 = fst (preprocessStructureDefinition d1 (sd_type sk = ''Extension'') s2)"
  define s3 where "s3 = snd (preprocessStructureDefinition d1 (sd_type sk = ''Extension'') s2)"
  define s4 where "s4 = snd (setRules env r d2 s3)"
  have p: "pushStructDef sk (warnIfInProgress parentDef d1 s1) = (r, s2)"
    using pa by (auto simp: publishAndApply_def Let_def split_beta s2_def)
  have s: "st2 = updSd r (\<lambda>sd. sd\<lparr>sd_inProgress := False\<rparr>) (updSd r (cleanResource env) s4)"
    using pa by (auto simp: publishAndApply_def Let_def split_beta s2_def d2_def s3_def s4_def)
  have e: "rules (entity d1) = rules (entity d)" "isLogical d1 = isLogical d"
    "id' (entity d1) = id' (entity d)"
    using getStructureDefinition_entity [OF g] by simp_all
  have "list_all notOnArtifact (rules (entity d2))"
    unfolding d2_def using preprocess_rules assms(2) e(1) by simp
  then have "list_all notOnArtifact (resolveSoftIndexing env (rules (entity d2)))"
    using assms(3) by simp
  then have k2: "keeps r s3 s4"
    unfolding s4_def by (rule keeps_setRules)
  have k1: "keeps r s2 s3"
    unfolding s3_def by simp
  have pf: "theSd s2 r = sk" "r < length (heap s2)"
    using pushStructDef_facts [OF p] by auto
  have h: "header (theSd s4 r) = header sk"
    using k1 k2 pf(1) by (simp add: keeps_def)
  have l: "r < length (heap s4)"
    using pf(2) frame_preprocess [of s2 d1 "sd_type sk = ''Extension''"]
      frame_setRules [of s3 env r d2]
    by (simp add: frame_def s3_def s4_def)
  have t: "theSd st' r = (cleanResource env (theSd s4 r))\<lparr>sd_inProgress := False\<rparr>"
    using l by (simp add: c s theSd_def updSd_def)
  have u: "sd_url (intoProgress env parentDef d1) = sd_url parentDef"
    by (simp add: intoProgress_def Let_def)
  have "sd_baseDefinition (theSd st' r) = sd_baseDefinition sk"
    "sd_derivation (theSd st' r) = sd_derivation sk" "sd_type (theSd st' r) = sd_type sk"
    using header_fields [OF h] assms(4) by (simp_all add: t)
  then show ?thesis
    using g setMetadata_fields [OF m] u e by auto
qed

lemmas example_defs3 = example_defs2 overridingCollaborators_def caretProfile_def caretState_def
  logicalState_def

theorem exportStructDef_derivation_counterexample:
  "getStructureDefinition (nestedExport 0 overridingCollaborators) overridingCollaborators
      (Profile caretProfile) caretState
     = Some (Inr (theSd caretState 0, Profile caretProfile), caretState)
   \<and> sd_url (theSd caretState 0) = ''u:b''
   \<and> map_option (\<lambda>(res, s). (res, sd_baseDefinition (theSd s 2), sd_derivation (theSd s 2)))
        (exportStructDef 0 overridingCollaborators (Profile caretProfile) caretState)
     = Some (Inr (Some 2), Some ''http://elsewhere.org/Other'', Some ''specialization'')"
  by (simp add: model_defs example_defs3 Let_def cong: let_weak_cong)

lemma logical_run:
  "map_option fst (exportStructDef 0 exampleCollaborators (Logical logicalModel) logicalState)
     = Some (Inr (Some 1))"
  by (simp add: model_defs example_defs3 Let_def cong: let_weak_cong)

lemma logical_parent:
  "getStructureDefinition (nestedExport 0 exampleCollaborators) exampleCollaborators
      (Logical logicalModel) logicalState
     = Some (Inr (theSd logicalState 0, Logical logicalModel), logicalState)"
  by (simp add: model_defs example_defs3 Let_def cong: let_weak_cong)

theorem exportStructDef_derivation_witness:
  "exportStructDef 0 exampleCollaborators (Profile childProfile) busyState
     = Some (Inr (Some 2), afterChild)
   \<and> list_all notOnArtifact (rules (entity (Profile childProfile)))
   \<and> sd_url (theSd busyState 0) = ''u:b''
   \<and> sd_baseDefinition (theSd afterChild 2) = Some ''u:b''
   \<and> sd_derivation (theSd afterChild 2) = Some ''constraint''
   \<and> (\<exists>st'. exportStructDef 0 exampleCollaborators (Logical logicalModel) logicalState
                 = Some (Inr (Some 1), st')
             \<and> sd_baseDefinition (theSd st' 1) = Some ''u:b''
             \<and> sd_derivation (theSd st' 1) = Some ''specialization''
             \<and> sd_type (theSd st' 1) = ''l'')"
proof -
  have r: "\<forall>rs. list_all notOnArtifact rs
             \<longrightarrow> list_all notOnArtifact (resolveSoftIndexing exampleCollaborators rs)"
    and c: "\<forall>sd. sd_baseDefinition (cleanResource exampleCollaborators sd) = sd_baseDefinition sd
              \<and> sd_derivation (cleanResource exampleCollaborators sd) = sd_derivation sd
              \<and> sd_type (cleanResource exampleCollaborators sd) = sd_type sd"
    by (simp_all add: exampleCollaborators_def)
  have n: "list_all notOnArtifact (rules (entity (Profile childProfile)))"
    "list_all notOnArtifact (rules (entity (Logical logicalModel)))"
    by (simp_all add: childProfile_def logicalModel_def fshStructure_def)
  have u: "sd_url (theSd busyState 0) = ''u:b''" "sd_url (theSd logicalState 0) = ''u:b''"
    by (simp_all add: busyState_def logicalState_def theSd_def tinyDefinition_def)
  have k: "\<not> isLogical (Profile childProfile)" "isLogical (Logical logicalModel)"
    "id' (entity (Logical logicalModel)) = ''l''"
    by (simp_all add: logicalModel_def fshStructure_def)
  have p: "sd_baseDefinition (theSd afterChild 2) = Some ''u:b''
           \<and> sd_derivation (theSd afterChild 2) = Some ''constraint''"
    using exportStructDef_derivation [OF child_run n(1) r c] child_steps(2) u(1) k(1) by auto
  obtain st' where l: "exportStructDef 0 exampleCollaborators (Logical logicalModel) logicalState
                 = Some (Inr (Some 1), st')"
    using logical_run by auto
  have "sd_baseDefinition (theSd st' 1) = Some ''u:b''
        \<and> sd_derivation (theSd st' 1) = Some ''specialization''
        \<and> sd_type (theSd st' 1) = ''l''"
    using exportStructDef_derivation [OF l n(2) r c] logical_parent u(2) k(2,3) by auto
  then show ?thesis
    using child_run n(1) u(1) p l by blast
qed

end
